theory Spec2Isabelle
  imports Complex_Main "HOL-Library.Sublist"
begin

section \<open>Request bodies and the waitlist schema (server.js, lines 51-56)\<close>

text \<open>
  A request body is the JSON object that \<^verbatim>\<open>express.json()\<close> hands to the route, kept as an
  association list from key to value. A number is the double the parser produced, kept
  as the rational it denotes. Arrays and nested objects are not told apart (\<open>JOther\<close>):
  the schema rejects both in every field.
\<close>

datatype jsval = JUndefined | JNull | JBool bool | JNum rat | JStr string | JOther

type_synonym json_object = "(string \<times> jsval) list"

definition getField :: "json_object \<Rightarrow> string \<Rightarrow> jsval" where
  "getField b k = (case map_of b k of None \<Rightarrow> JUndefined | Some v \<Rightarrow> v)"

text \<open>The error codes of Joi that this schema can report, each with the key it is about.\<close>

datatype joi_error =
    AnyRequired string
  | StringBase string
  | StringEmpty string
  | StringEmail string
  | NumberBase string
  | NumberMin string
  | NumberMax string
  | ObjectUnknown string

text \<open>
  \<^verbatim>\<open>Joi.string().required()\<close>: the key must be present, its value a string, and the empty
  string is not allowed (Joi's default for strings). Nothing is converted to a string.
\<close>

fun joi_string_required :: "string \<Rightarrow> jsval \<Rightarrow> joi_error + string" where
  "joi_string_required k JUndefined = Inl (AnyRequired k)"
| "joi_string_required k (JStr s) = (if s = [] then Inl (StringEmpty k) else Inr s)"
| "joi_string_required k v = Inl (StringBase k)"

text \<open>
  \<^verbatim>\<open>Joi.number().min(1).max(5).required()\<close>. A number is taken as it is; a string is
  converted when Joi's coercion recognises a number in it (the default \<open>convert\<close> mode: the
  page's own form posts the value of an input element, a string). The coercion is the
  library's, so it is the parameter \<open>toNumber\<close>. The rule \<^verbatim>\<open>integer()\<close> is not part of the
  schema.
\<close>

fun joi_number_coerce :: "(string \<Rightarrow> rat option) \<Rightarrow> string \<Rightarrow> jsval \<Rightarrow> joi_error + rat" where
  "joi_number_coerce toNumber k JUndefined = Inl (AnyRequired k)"
| "joi_number_coerce toNumber k (JNum q) = Inr q"
| "joi_number_coerce toNumber k (JStr s) =
     (case toNumber s of None \<Rightarrow> Inl (NumberBase k) | Some q \<Rightarrow> Inr q)"
| "joi_number_coerce toNumber k v = Inl (NumberBase k)"

definition joi_number_1_5 :: "(string \<Rightarrow> rat option) \<Rightarrow> string \<Rightarrow> jsval \<Rightarrow> joi_error + rat" where
  "joi_number_1_5 toNumber k v =
     (case joi_number_coerce toNumber k v of
        Inl e \<Rightarrow> Inl e
      | Inr q \<Rightarrow> if q < 1 then Inl (NumberMin k) else if 5 < q then Inl (NumberMax k) else Inr q)"

record waitlist_value =
  v_email :: string
  v_primarySkill :: string
  v_biggestChallenge :: string
  v_interestLevel :: rat

definition schemaKeys :: "string list" where
  "schemaKeys = [''email'', ''primarySkill'', ''biggestChallenge'', ''interestLevel'']"

text \<open>
  \<^verbatim>\<open>waitlistSchema.validate(req.body)\<close>: the keys are checked in the order of the schema,
  the first error ends the validation (\<open>abortEarly\<close>), and a key the schema does not name
  is an error (Joi's default for object schemas). The syntax check of \<^verbatim>\<open>email()\<close> is the
  library's: the parameter \<open>isEmail\<close>.
\<close>

definition waitlistSchema_validate ::
  "(string \<Rightarrow> bool) \<Rightarrow> (string \<Rightarrow> rat option) \<Rightarrow> json_object \<Rightarrow> joi_error + waitlist_value" where
  "waitlistSchema_validate isEmail toNumber b =
     (case joi_string_required ''email'' (getField b ''email'') of
        Inl e \<Rightarrow> Inl e
      | Inr em \<Rightarrow>
          if \<not> isEmail em then Inl (StringEmail ''email'')
          else
            (case joi_string_required ''primarySkill'' (getField b ''primarySkill'') of
               Inl e \<Rightarrow> Inl e
             | Inr sk \<Rightarrow>
                 (case joi_string_required ''biggestChallenge'' (getField b ''biggestChallenge'') of
                    Inl e \<Rightarrow> Inl e
                  | Inr ch \<Rightarrow>
                      (case joi_number_1_5 toNumber ''interestLevel'' (getField b ''interestLevel'') of
                         Inl e \<Rightarrow> Inl e
                       | Inr lvl \<Rightarrow>
                           (case filter (\<lambda>k. k \<notin> set schemaKeys) (map fst b) of
                              k # _ \<Rightarrow> Inl (ObjectUnknown k)
                            | [] \<Rightarrow>
                                Inr \<lparr>v_email = em, v_primarySkill = sk,
                                     v_biggestChallenge = ch, v_interestLevel = lvl\<rparr>)))))"

text \<open>
  The client's own check of an address (script.js, \<^verbatim>\<open>/^[^\s@]+@[^\s@]+\.[^\s@]+$/\<close>), used
  as a concrete stand-in for the library's rule where an example needs one: no white space,
  exactly one \<open>@\<close>, a non-empty local part, and a dot inside the domain with something on
  both sides.
\<close>

definition isSpace :: "char \<Rightarrow> bool" where
  "isSpace c = (c \<in> set [CHR '' '', CHR 0x09, CHR 0x0A, CHR 0x0B, CHR 0x0C, CHR 0x0D])"

definition emailRegex_test :: "string \<Rightarrow> bool" where
  "emailRegex_test s =
     (let local = takeWhile (\<lambda>c. c \<noteq> CHR ''@'') s;
          domain = drop (Suc (length local)) s
      in (\<forall>c \<in> set s. \<not> isSpace c) \<and> local \<noteq> [] \<and> length local < length s
         \<and> CHR ''@'' \<notin> set domain
         \<and> (\<exists>i \<in> set [1 ..< length domain - 1]. domain ! i = CHR ''.''))"

text \<open>A stand-in for the coercion of numeric strings: decimal digits only.\<close>

definition digitsToNumber :: "string \<Rightarrow> rat option" where
  "digitsToNumber s =
     (if s \<noteq> [] \<and> (\<forall>c \<in> set s. (48::nat) \<le> of_char c \<and> of_char c \<le> (57::nat))
      then Some (of_nat (foldl (\<lambda>n c. 10 * n + (of_char c - 48)) (0::nat) s))
      else None)"

section \<open>The notification dispatcher (services/emailService.js)\<close>

text \<open>
  The fields of \<^verbatim>\<open>EmailService\<close> that its constructor sets from the environment.
  \<open>isConfigured\<close> is true exactly when an API key was supplied, and only then does the
  object hold a mail client.
\<close>

record EmailService =
  fromEmail :: string
  fromName :: string
  isConfigured :: bool
  isDevelopment :: bool

text \<open>
  What is handed to \<^verbatim>\<open>resend.emails.send\<close>. The subject of an update is whatever the
  request carried, so it is a JSON value. The rendered bodies (\<open>html\<close>, \<open>text\<close>) are
  template strings and are left out.
\<close>

record mail_request =
  m_from :: string
  m_to :: "string list"
  m_subject :: jsval

text \<open>
  The mail client is outside the program. A call resolves with data, resolves with an
  error object (whose \<open>message\<close> may be missing), or throws. Every call and every pacing
  delay is appended to a trace, and the client's answer may depend on the trace so far.
\<close>

datatype send_outcome = SendOk | SendError "string option" | SendThrow string

datatype io_event = Sent mail_request | Delay nat

type_synonym transport = "io_event list \<Rightarrow> mail_request \<Rightarrow> send_outcome"

record userData =
  ud_position :: nat
  ud_primarySkill :: string
  ud_biggestChallenge :: string
  ud_interestLevel :: rat
  ud_email :: string

text \<open>
  The result object \<^verbatim>\<open>{ success, error }\<close>. \<open>e_error = None\<close> on a failure stands for
  the error object itself, which the code returns when it has no message.
\<close>

record email_result =
  e_success :: bool
  e_error :: "string option"

definition str_includes :: "string \<Rightarrow> string \<Rightarrow> bool" where
  "str_includes s pat = sublist pat s"

definition errorMessageOr :: "string option \<Rightarrow> string option" where
  "errorMessageOr m = (case m of None \<Rightarrow> None | Some t \<Rightarrow> if t = [] then None else Some t)"

definition welcomeSubject :: string where
  "welcomeSubject =
     [CHR 0xF0, CHR 0x9F, CHR 0x9A, CHR 0x80] @ '' Welcome to Zintle'' @ [CHR 0x27]
       @ ''s Private Beta!''"

definition sendWelcomeEmail ::
  "EmailService \<Rightarrow> transport \<Rightarrow> io_event list \<Rightarrow> string \<Rightarrow> userData
     \<Rightarrow> email_result \<times> io_event list" where
  "sendWelcomeEmail svc send tr userEmail ud =
     (if \<not> isConfigured svc then (\<lparr>e_success = True, e_error = None\<rparr>, tr)
      else
        let emailData =
              \<lparr>m_from = (if isDevelopment svc then ''onboarding@resend.dev''
                         else fromName svc @ '' <'' @ fromEmail svc @ ''>''),
               m_to = [userEmail],
               m_subject = JStr welcomeSubject\<rparr>;
            tr1 = tr @ [Sent emailData]
        in (case send tr emailData of
              SendThrow msg \<Rightarrow> (\<lparr>e_success = False, e_error = Some msg\<rparr>, tr1)
            | SendOk \<Rightarrow> (\<lparr>e_success = True, e_error = None\<rparr>, tr1)
            | SendError m \<Rightarrow>
                if (case m of None \<Rightarrow> False | Some t \<Rightarrow> str_includes t ''domain is not verified'')
                then
                  let retryData = emailData\<lparr>m_from := ''onboarding@resend.dev''\<rparr>;
                      tr2 = tr1 @ [Sent retryData]
                  in (case send tr1 retryData of
                        SendThrow msg \<Rightarrow> (\<lparr>e_success = False, e_error = Some msg\<rparr>, tr2)
                      | SendError rm \<Rightarrow> (\<lparr>e_success = False, e_error = errorMessageOr rm\<rparr>, tr2)
                      | SendOk \<Rightarrow> (\<lparr>e_success = True, e_error = None\<rparr>, tr2))
                else (\<lparr>e_success = False, e_error = errorMessageOr m\<rparr>, tr1)))"










text \<open>The batches a trace holds: the recipient lists of its calls, in order.\<close>

fun batchesOf :: "io_event list \<Rightarrow> string list list" where
  "batchesOf [] = []"
| "batchesOf (Sent r # es) = m_to r # batchesOf es"
| "batchesOf (Delay d # es) = batchesOf es"

section \<open>The persistent store\<close>

text \<open>
  Modelled from the spec: the Prisma schema is not among the sources. Section 6 of the
  specification gives the tables \<^verbatim>\<open>users(id PK, email UNIQUE, createdAt, updatedAt)\<close> and
  \<^verbatim>\<open>responses(id PK, userId FK, questionId, question, answer, createdAt)\<close>. Ids are taken
  from a counter, timestamps are milliseconds since the epoch, as in a JavaScript
  \<^verbatim>\<open>Date\<close>, and a new row gets the time of its insert.
\<close>

record user =
  u_id :: nat
  u_email :: string
  u_createdAt :: int
  u_updatedAt :: int

record response =
  r_id :: nat
  r_userId :: nat
  r_questionId :: string
  r_question :: string
  r_answer :: string
  r_createdAt :: int

record store =
  users :: "user list"
  responses :: "response list"
  nextUserId :: nat
  nextResponseId :: nat

text \<open>
  Every query of the client can reject (the database is away, a constraint is violated).
  Which of them reject during one request is the parameter \<open>flt\<close> of the handlers.
\<close>

datatype db_op =
    UserFindUnique | UserCreate | ResponseCreate string | UserCount | UserFindMany
  | ResponseGroupBy | ResponseCount

datatype db_error = QueryFailed db_op | UniqueConstraint

definition user_findUnique :: "(db_op \<Rightarrow> bool) \<Rightarrow> store \<Rightarrow> string \<Rightarrow> db_error + user option" where
  "user_findUnique flt s em =
     (if flt UserFindUnique then Inl (QueryFailed UserFindUnique)
      else Inr (find (\<lambda>u. u_email u = em) (users s)))"

definition user_count :: "(db_op \<Rightarrow> bool) \<Rightarrow> store \<Rightarrow> db_error + nat" where
  "user_count flt s =
     (if flt UserCount then Inl (QueryFailed UserCount) else Inr (length (users s)))"

definition user_create :: "(db_op \<Rightarrow> bool) \<Rightarrow> int \<Rightarrow> string \<Rightarrow> store \<Rightarrow> db_error + user \<times> store" where
  "user_create flt now em s =
     (if flt UserCreate then Inl (QueryFailed UserCreate)
      else if em \<in> set (map u_email (users s)) then Inl UniqueConstraint
      else
        let u = \<lparr>u_id = nextUserId s, u_email = em, u_createdAt = now, u_updatedAt = now\<rparr>
        in Inr (u, s\<lparr>users := users s @ [u], nextUserId := Suc (nextUserId s)\<rparr>))"

definition response_create ::
  "(db_op \<Rightarrow> bool) \<Rightarrow> int \<Rightarrow> nat \<Rightarrow> string \<Rightarrow> string \<Rightarrow> string \<Rightarrow> store
     \<Rightarrow> db_error + response \<times> store" where
  "response_create flt now uid qid q a s =
     (if flt (ResponseCreate qid) then Inl (QueryFailed (ResponseCreate qid))
      else
        let r = \<lparr>r_id = nextResponseId s, r_userId = uid, r_questionId = qid,
                 r_question = q, r_answer = a, r_createdAt = now\<rparr>
        in Inr (r, s\<lparr>responses := responses s @ [r], nextResponseId := Suc (nextResponseId s)\<rparr>))"

text \<open>
  \<^verbatim>\<open>prisma.$transaction(async (tx) => ...)\<close>, the interactive transaction of the client
  library: the callback works on the store, and when it rejects, the store is left as it
  was before the transaction and the rejection is passed on.
\<close>

definition transaction :: "(store \<Rightarrow> db_error + 'a \<times> store) \<Rightarrow> store \<Rightarrow> (db_error + 'a) \<times> store" where
  "transaction body s =
     (case body s of Inl e \<Rightarrow> (Inl e, s) | Inr (v, s1) \<Rightarrow> (Inr v, s1))"

section \<open>Number formatting\<close>

definition digitChar :: "nat \<Rightarrow> char" where
  "digitChar d = char_of (48 + d)"

fun showNat :: "nat \<Rightarrow> string" where
  "showNat n = (if n < 10 then [digitChar n] else showNat (n div 10) @ [digitChar (n mod 10)])"

declare showNat.simps [simp del]

subsection \<open>Numbers as doubles\<close>

text \<open>
  A JavaScript Number is a binary64 floating-point value, and each finite one is a
  rational. \<open>toDouble q\<close> is the double nearest to the rational \<open>q\<close>, ties going to the even
  significand: the result of every arithmetic operation of the code is the \<open>toDouble\<close> of
  the exact result. The significand has 53 bits, the least exponent is that of the
  subnormals. Overflow to \<open>Infinity\<close> is not modelled: no value here comes near \<open>2^1024\<close>.
\<close>

function digitCount :: "int \<Rightarrow> int \<Rightarrow> nat" where
  "digitCount b n = (if b < 2 \<or> n \<le> 0 then 0 else Suc (digitCount b (n div b)))"
  by pat_completeness auto
termination
  by (relation "measure (\<lambda>(b, n). nat n)") (auto intro: int_div_less_self)

declare digitCount.simps [simp del]

definition ipow :: "rat \<Rightarrow> int \<Rightarrow> rat" where
  "ipow b e = (if 0 \<le> e then b ^ nat e else 1 / b ^ nat (- e))"

text \<open>
  For \<open>q > 0\<close>, the integer \<open>e\<close> with \<open>b^e \<le> q < b^(e+1)\<close>: the difference of the digit
  counts of numerator and denominator, or one less.
\<close>

definition floorLog :: "int \<Rightarrow> rat \<Rightarrow> int" where
  "floorLog b q =
     (let e = int (digitCount b (fst (quotient_of q))) - int (digitCount b (snd (quotient_of q)))
      in if ipow (of_int b) e \<le> q then e else e - 1)"

definition roundHalfEven :: "rat \<Rightarrow> int" where
  "roundHalfEven x =
     (let f = \<lfloor>x\<rfloor>; r = x - of_int f
      in if r < 1 / 2 then f else if 1 / 2 < r then f + 1 else if even f then f else f + 1)"

definition toDouble :: "rat \<Rightarrow> rat" where
  "toDouble q =
     (if q = 0 then 0
      else
        let a = \<bar>q\<bar>;
            e = max (floorLog 2 a - 52) (- 1074);
            m = roundHalfEven (a / ipow 2 e)
        in sgn q * of_int m * ipow 2 e)"

subsection \<open>Printing a number\<close>

function showInt :: "int \<Rightarrow> string" where
  "showInt n =
     (if n < 10 then [digitChar (nat n)] else showInt (n div 10) @ [digitChar (nat (n mod 10))])"
  by pat_completeness auto
termination
  by (relation "measure nat") (auto intro: int_div_less_self)

declare showInt.simps [simp del]

text \<open>
  \<^verbatim>\<open>Number.prototype.toString\<close> (ECMAScript, Number::toString with radix 10): the digits
  \<open>s\<close>, their number \<open>k\<close> and the decimal exponent \<open>n\<close> are such that \<open>s * 10^(n - k)\<close> is
  read back as the number, with \<open>k\<close> as small as possible and, for this \<open>k\<close>, \<open>s\<close> as near
  to the number as possible. \<open>candidate\<close> is the nearest \<open>s\<close> with \<open>k\<close> digits;
  \<open>shortestDigits\<close> tries \<open>k = 1, 2, ...\<close>, and 17 digits always suffice.
\<close>

definition candidate :: "rat \<Rightarrow> int \<Rightarrow> nat \<Rightarrow> int \<times> int" where
  "candidate x n0 k =
     (let s = roundHalfEven (x / ipow 10 (n0 - int k))
      in if s = 10 ^ k then (10 ^ (k - 1), n0 + 1) else (s, n0))"

fun shortestDigits :: "nat \<Rightarrow> nat \<Rightarrow> rat \<Rightarrow> int \<Rightarrow> nat \<times> int \<times> int" where
  "shortestDigits 0 k x n0 = (k, candidate x n0 k)"
| "shortestDigits (Suc fuel) k x n0 =
     (let (s, n) = candidate x n0 k
      in if toDouble (of_int s * ipow 10 (n - int k)) = x then (k, s, n)
         else shortestDigits fuel (Suc k) x n0)"

text \<open>The four layouts of the standard: trailing zeros, a point inside, a leading \<open>0.\<close>, an exponent.\<close>

definition formatNumber :: "nat \<Rightarrow> int \<Rightarrow> int \<Rightarrow> string" where
  "formatNumber k s n =
     (let ds = showInt s
      in if int k \<le> n \<and> n \<le> 21 then ds @ replicate (nat (n - int k)) CHR ''0''
         else if 0 < n \<and> n \<le> 21 then take (nat n) ds @ ''.'' @ drop (nat n) ds
         else if - 6 < n \<and> n \<le> 0 then ''0.'' @ replicate (nat (- n)) CHR ''0'' @ ds
         else
           (if k = 1 then ds else take 1 ds @ ''.'' @ drop 1 ds)
             @ ''e'' @ (if n - 1 < 0 then ''-'' else ''+'') @ showInt \<bar>n - 1\<bar>)"

text \<open>
  The argument stands for a Number, so it is first taken to the double it denotes (a
  double is left as it is).
\<close>

definition Number_toString :: "rat \<Rightarrow> string" where
  "Number_toString q =
     (let x = \<bar>toDouble q\<bar>
      in if x = 0 then ''0''
         else
           (case shortestDigits 16 1 x (floorLog 10 x + 1) of
              (k, s, n) \<Rightarrow> (if q < 0 then ''-'' else []) @ formatNumber k s n))"

subsection \<open>Fixed-point notation\<close>

text \<open>
  \<^verbatim>\<open>Number.prototype.toFixed(d)\<close> on a double \<open>q\<close> that is not negative: the integer \<open>n\<close>
  nearest to the exact value of \<open>q * 10^d\<close> (the larger one at a tie), printed with \<open>d\<close>
  digits after the point. From \<open>10^21\<close> on the code prints an exponent instead, which the
  ratio of two counts below \<open>2^53\<close> does not reach.
\<close>

fun padDigits :: "nat \<Rightarrow> nat \<Rightarrow> string" where
  "padDigits 0 n = []"
| "padDigits (Suc d) n = padDigits d (n div 10) @ [digitChar (n mod 10)]"

definition toFixed :: "nat \<Rightarrow> rat \<Rightarrow> string" where
  "toFixed d q =
     (let n = nat \<lfloor>q * 10 ^ d + 1 / 2\<rfloor>
      in showNat (n div 10 ^ d) @ (if d = 0 then [] else ''.'' @ padDigits d (n mod 10 ^ d)))"

section \<open>The realtime broadcaster (server.js, lines 59-67)\<close>

datatype ws_message = CounterUpdate nat | SpotsUpdate int

record ws_client =
  readyOpen :: bool
  received :: "ws_message list"

definition broadcastUpdate :: "ws_message \<Rightarrow> ws_client list \<Rightarrow> ws_client list" where
  "broadcastUpdate msg cs =
     map (\<lambda>c. if readyOpen c then c\<lparr>received := received c @ [msg]\<rparr> else c) cs"

section \<open>The routes of the signup pipeline (server.js, lines 70-181)\<close>

record world =
  db :: store
  mailTrace :: "io_event list"
  clients :: "ws_client list"

datatype stats_response = StatsOk nat int | StatsFailed

text \<open>\<^verbatim>\<open>GET /api/stats\<close>; the time stamp of the answer is left out.\<close>

definition get_stats :: "(db_op \<Rightarrow> bool) \<Rightarrow> world \<Rightarrow> stats_response" where
  "get_stats flt w =
     (case user_count flt (db w) of
        Inl e \<Rightarrow> StatsFailed
      | Inr totalSignups \<Rightarrow> StatsOk totalSignups (max (500 - int totalSignups) 0))"

text \<open>
  The callback of the transaction: the user row, then the three response rows of
  \<^verbatim>\<open>Promise.all\<close> in the order of the array. The first rejection rejects the callback.
\<close>

definition signupTx ::
  "(db_op \<Rightarrow> bool) \<Rightarrow> int \<Rightarrow> waitlist_value \<Rightarrow> store \<Rightarrow> db_error + (user \<times> response list) \<times> store" where
  "signupTx flt now v s =
     (case user_create flt now (v_email v) s of
        Inl e \<Rightarrow> Inl e
      | Inr (u, s1) \<Rightarrow>
          (case response_create flt now (u_id u) ''primary_skill''
                  (''What'' @ [CHR 0x27] @ ''s your primary creative skill?'')
                  (v_primarySkill v) s1 of
             Inl e \<Rightarrow> Inl e
           | Inr (r1, s2) \<Rightarrow>
               (case response_create flt now (u_id u) ''biggest_challenge''
                       (''What'' @ [CHR 0x27] @ ''s your biggest challenge as a freelancer?'')
                       (v_biggestChallenge v) s2 of
                  Inl e \<Rightarrow> Inl e
                | Inr (r2, s3) \<Rightarrow>
                    (case response_create flt now (u_id u) ''interest_level''
                            ''How interested are you in skill-swapping?''
                            (Number_toString (v_interestLevel v)) s3 of
                       Inl e \<Rightarrow> Inl e
                     | Inr (r3, s4) \<Rightarrow> Inr ((u, [r1, r2, r3]), s4)))))"

datatype waitlist_response =
    Status201 nat bool nat
  | Status400 joi_error
  | Status409
  | Status500

text \<open>
  \<^verbatim>\<open>POST /api/waitlist\<close>. \<open>Status201 userId emailSent position\<close> is the answer of a
  signup. Whatever is thrown inside the handler is caught at its end and answered with
  500; what a committed transaction wrote stays written.
\<close>

definition post_waitlist ::
  "(string \<Rightarrow> bool) \<Rightarrow> (string \<Rightarrow> rat option) \<Rightarrow> (db_op \<Rightarrow> bool) \<Rightarrow> EmailService \<Rightarrow> transport
     \<Rightarrow> int \<Rightarrow> json_object \<Rightarrow> world \<Rightarrow> waitlist_response \<times> world" where
  "post_waitlist isEmail toNumber flt svc send now body w =
     (case waitlistSchema_validate isEmail toNumber body of
        Inl e \<Rightarrow> (Status400 e, w)
      | Inr v \<Rightarrow>
          (case user_findUnique flt (db w) (v_email v) of
             Inl e \<Rightarrow> (Status500, w)
           | Inr (Some existingUser) \<Rightarrow> (Status409, w)
           | Inr None \<Rightarrow>
               (case transaction (signupTx flt now v) (db w) of
                  (Inl e, s1) \<Rightarrow> (Status500, w\<lparr>db := s1\<rparr>)
                | (Inr result, s1) \<Rightarrow>
                    (case user_count flt s1 of
                       Inl e \<Rightarrow> (Status500, w\<lparr>db := s1\<rparr>)
                     | Inr totalSignups \<Rightarrow>
                         let (emailResult, tr1) =
                               sendWelcomeEmail svc send (mailTrace w) (v_email v)
                                 \<lparr>ud_position = totalSignups,
                                  ud_primarySkill = v_primarySkill v,
                                  ud_biggestChallenge = v_biggestChallenge v,
                                  ud_interestLevel = v_interestLevel v,
                                  ud_email = v_email v\<rparr>;
                             spotsLeft = max (500 - int totalSignups) 0;
                             cs1 = broadcastUpdate (CounterUpdate totalSignups) (clients w);
                             cs2 = broadcastUpdate (SpotsUpdate spotsLeft) cs1
                         in (Status201 (u_id (fst result)) (e_success emailResult) totalSignups,
                             w\<lparr>db := s1, mailTrace := tr1, clients := cs2\<rparr>)))))"

section \<open>The aggregation engine (server.js, lines 264-430)\<close>

definition DAY :: int where
  "DAY = 24 * 60 * 60 * 1000"

text \<open>
  \<^verbatim>\<open>date.toISOString().split('T')[0]\<close>, the UTC calendar date of an instant. The text
  \<open>YYYY-MM-DD\<close> names one UTC day and every day has one such text, so the key is kept as
  the number of the day since the epoch: two instants get the same key exactly when they
  fall on the same UTC date.
\<close>

definition isoDate :: "int \<Rightarrow> int" where
  "isoDate t = t div DAY"

text \<open>\<^verbatim>\<open>new Date(dateStr)\<close> for a date without a time: midnight UTC of that day.\<close>

definition dateOfKey :: "int \<Rightarrow> int" where
  "dateOfKey d = d * DAY"

definition countSince :: "store \<Rightarrow> int \<Rightarrow> nat" where
  "countSince s t = length (filter (\<lambda>u. t \<le> u_createdAt u) (users s))"

definition usersLastMonth :: "store \<Rightarrow> int \<Rightarrow> user list" where
  "usersLastMonth s today =
     sort_key u_createdAt (filter (\<lambda>u. today - 30 * DAY \<le> u_createdAt u) (users s))"

text \<open>
  A JavaScript object with string keys that are not array indices lists its entries in
  the order in which the keys were first set: an association list.
\<close>

definition hasOwnProperty :: "('k \<times> 'v) list \<Rightarrow> 'k \<Rightarrow> bool" where
  "hasOwnProperty d k = (k \<in> set (map fst d))"

definition objSet :: "('k \<times> 'v) list \<Rightarrow> 'k \<Rightarrow> 'v \<Rightarrow> ('k \<times> 'v) list" where
  "objSet d k v =
     (if hasOwnProperty d k then map (\<lambda>e. if fst e = k then (k, v) else e) d else d @ [(k, v)])"

definition objIncr :: "('k \<times> nat) list \<Rightarrow> 'k \<Rightarrow> ('k \<times> nat) list" where
  "objIncr d k = map (\<lambda>e. if fst e = k then (k, snd e + 1) else e) d"

text \<open>The first loop, \<open>i\<close> from 29 down to 0: one key for each of the last 30 days.\<close>

definition initDay :: "int \<Rightarrow> nat \<Rightarrow> (int \<times> nat) list \<Rightarrow> (int \<times> nat) list" where
  "initDay today i d = objSet d (isoDate (today - int i * DAY)) 0"

definition dailyDataInit :: "int \<Rightarrow> (int \<times> nat) list" where
  "dailyDataInit today = fold (initDay today) (rev [0 ..< 30]) []"

text \<open>The second loop: a user is counted when the date of the signup is a key.\<close>

definition countDay :: "user \<Rightarrow> (int \<times> nat) list \<Rightarrow> (int \<times> nat) list" where
  "countDay u d =
     (let dateStr = isoDate (u_createdAt u)
      in if hasOwnProperty d dateStr then objIncr d dateStr else d)"

definition dailyData :: "store \<Rightarrow> int \<Rightarrow> (int \<times> nat) list" where
  "dailyData s today = fold countDay (usersLastMonth s today) (dailyDataInit today)"

text \<open>The entries \<open>(date, signups)\<close>, sorted by the instant the date denotes (a stable sort).\<close>

definition dailySignupsArray :: "store \<Rightarrow> int \<Rightarrow> (int \<times> nat) list" where
  "dailySignupsArray s today = sort_key (\<lambda>e. dateOfKey (fst e)) (dailyData s today)"

text \<open>
  \<^verbatim>\<open>createdAt.getHours()\<close>: the hour of the day in the server's time zone, whose offset
  from UTC (in milliseconds, possibly changing over the year) is the parameter \<open>tz\<close>.
\<close>

definition getHours :: "(int \<Rightarrow> int) \<Rightarrow> int \<Rightarrow> nat" where
  "getHours tz t = nat (((t + tz t) div (60 * 60 * 1000)) mod 24)"

text \<open>
  The body of the loop over the users: \<^verbatim>\<open>hourlyData[hour]++\<close>. The hour is below 24, so
  the write stays inside the array.
\<close>

definition countHour :: "(int \<Rightarrow> int) \<Rightarrow> user \<Rightarrow> nat list \<Rightarrow> nat list" where
  "countHour tz u h = (let hour = getHours tz (u_createdAt u) in h[hour := h ! hour + 1])"

definition hourlyData :: "(int \<Rightarrow> int) \<Rightarrow> store \<Rightarrow> nat list" where
  "hourlyData tz s = fold (countHour tz) (users s) (replicate 24 0)"

text \<open>\<^verbatim>\<open>Math.max(...xs)\<close>; \<open>None\<close> is the \<open>-Infinity\<close> of an empty argument list.\<close>

fun Math_max :: "nat list \<Rightarrow> nat option" where
  "Math_max [] = None"
| "Math_max (x # xs) = (case Math_max xs of None \<Rightarrow> Some x | Some m \<Rightarrow> Some (max x m))"

text \<open>\<^verbatim>\<open>Array.prototype.indexOf\<close>: the first index holding the value, \<open>-1\<close> when none does.\<close>

fun indexOf :: "'a list \<Rightarrow> 'a \<Rightarrow> int" where
  "indexOf [] v = - 1"
| "indexOf (x # xs) v =
     (if x = v then 0 else (let r = indexOf xs v in if r < 0 then - 1 else r + 1))"

definition peakSignupHour :: "(int \<Rightarrow> int) \<Rightarrow> store \<Rightarrow> int" where
  "peakSignupHour tz s =
     (case Math_max (hourlyData tz s) of
        None \<Rightarrow> - 1
      | Some m \<Rightarrow> indexOf (hourlyData tz s) m)"

definition infinitySign :: string where
  "infinitySign = [CHR 0xE2, CHR 0x88, CHR 0x9E]"

text \<open>
  The counts are whole numbers below \<open>2^53\<close> and as such exact Numbers, and so is their
  difference. The quotient and the product are doubles: each is rounded.
\<close>

definition weeklyGrowthRate :: "store \<Rightarrow> int \<Rightarrow> string" where
  "weeklyGrowthRate s today =
     (let totalUsers = length (users s);
          usersThisWeek = countSince s (today - 7 * DAY);
          lastWeekTotalUsers = int totalUsers - int usersThisWeek
      in if lastWeekTotalUsers > 0
         then toFixed 2 (toDouble (toDouble (of_nat usersThisWeek / of_int lastWeekTotalUsers) * 100))
         else infinitySign)"

text \<open>
  The fields of the report of \<^verbatim>\<open>GET /api/analytics/comprehensive\<close> that depend on the
  users alone. The distributions, the funnel and the business metrics are not modelled;
  their queries are, as far as they can reject: any rejected query ends the request with
  500 and no report (\<open>None\<close>).
\<close>

record report =
  totalUsers :: nat
  usersToday :: nat
  usersThisWeek :: nat
  usersThisMonth :: nat
  weeklyGrowthRateField :: string
  dailySignups :: "(int \<times> nat) list"
  hourlySignups :: "nat list"
  peakHour :: int

definition get_comprehensive ::
  "(db_op \<Rightarrow> bool) \<Rightarrow> (int \<Rightarrow> int) \<Rightarrow> int \<Rightarrow> world \<Rightarrow> report option" where
  "get_comprehensive flt tz today w =
     (if flt UserCount \<or> flt UserFindMany \<or> flt ResponseGroupBy \<or> flt ResponseCount
      then None
      else
        let s = db w; wgr = weeklyGrowthRate s today
        in Some \<lparr>totalUsers = length (users s),
                 usersToday = countSince s (today - DAY),
                 usersThisWeek = countSince s (today - 7 * DAY),
                 usersThisMonth = countSince s (today - 30 * DAY),
                 weeklyGrowthRateField = (if wgr = infinitySign then ''New'' else wgr @ ''%''),
                 dailySignups = dailySignupsArray s today,
                 hourlySignups = hourlyData tz s,
                 peakHour = peakSignupHour tz s\<rparr>)"

section \<open>Predicates and example inputs used in the statements\<close>

text \<open>The conditions of the schema on everything but the interest level.\<close>

definition fieldsOk :: "(string \<Rightarrow> bool) \<Rightarrow> json_object \<Rightarrow> bool" where
  "fieldsOk isEmail b \<longleftrightarrow>
     (\<exists>e. getField b ''email'' = JStr e \<and> e \<noteq> [] \<and> isEmail e)
   \<and> (\<exists>s. getField b ''primarySkill'' = JStr s \<and> s \<noteq> [])
   \<and> (\<exists>c. getField b ''biggestChallenge'' = JStr c \<and> c \<noteq> [])
   \<and> set (map fst b) \<subseteq> set schemaKeys"

text \<open>The submission of the concrete scenario, with the interest level left open.\<close>

definition exampleBody :: "jsval \<Rightarrow> json_object" where
  "exampleBody lvl =
     [(''email'', JStr ''a@x.com''), (''primarySkill'', JStr ''design''),
      (''biggestChallenge'', JStr ''finding_clients''), (''interestLevel'', lvl)]"










definition demoService :: EmailService where
  "demoService = \<lparr>fromEmail = ''onboarding@resend.dev'', fromName = ''Zintle Team'',
                   isConfigured = False, isDevelopment = False\<rparr>"

definition liveService :: EmailService where
  "liveService = \<lparr>fromEmail = ''onboarding@resend.dev'', fromName = ''Zintle Team'',
                   isConfigured = True, isDevelopment = False\<rparr>"

definition downTransport :: transport where
  "downTransport tr req = SendThrow ''network unreachable''"

definition okTransport :: transport where
  "okTransport tr req = SendOk"

definition noFault :: "db_op \<Rightarrow> bool" where
  "noFault op = False"

definition emptyStore :: store where
  "emptyStore = \<lparr>users = [], responses = [], nextUserId = 1, nextResponseId = 1\<rparr>"

definition emptyWorld :: world where
  "emptyWorld = \<lparr>db = emptyStore, mailTrace = [], clients = []\<rparr>"

text \<open>One of the four inserts of the transaction rejects.\<close>

definition insertFault :: "(db_op \<Rightarrow> bool) \<Rightarrow> bool" where
  "insertFault flt \<longleftrightarrow>
     flt UserCreate \<or> flt (ResponseCreate ''primary_skill'')
   \<or> flt (ResponseCreate ''biggest_challenge'') \<or> flt (ResponseCreate ''interest_level'')"

text \<open>The last insert of the transaction rejects, everything else works.\<close>

definition interestFault :: "db_op \<Rightarrow> bool" where
  "interestFault op = (op = ResponseCreate ''interest_level'')"

definition exampleValue :: waitlist_value where
  "exampleValue = \<lparr>v_email = ''a@x.com'', v_primarySkill = ''design'',
                    v_biggestChallenge = ''finding_clients'', v_interestLevel = 5\<rparr>"

text \<open>The first signup of the concrete scenario, on an empty store.\<close>

definition firstSignup :: "waitlist_response \<times> world" where
  "firstSignup =
     post_waitlist emailRegex_test digitsToNumber noFault demoService okTransport 1000
       (exampleBody (JNum 5)) emptyWorld"

text \<open>A store with two users from day 0 and one user from day 100.\<close>

definition growthStore :: store where
  "growthStore =
     \<lparr>users = [\<lparr>u_id = 1, u_email = ''a@x.com'', u_createdAt = 0, u_updatedAt = 0\<rparr>,
               \<lparr>u_id = 2, u_email = ''b@x.com'', u_createdAt = 1, u_updatedAt = 1\<rparr>,
               \<lparr>u_id = 3, u_email = ''c@x.com'', u_createdAt = 100 * DAY, u_updatedAt = 100 * DAY\<rparr>],
      responses = [], nextUserId = 4, nextResponseId = 1\<rparr>"

definition growthWorld :: world where
  "growthWorld = \<lparr>db = growthStore, mailTrace = [], clients = []\<rparr>"

text \<open>A store with 160 users from day 0 and 23 users from day 100.\<close>

definition ratioStore :: store where
  "ratioStore =
     \<lparr>users = map (\<lambda>i. \<lparr>u_id = Suc i, u_email = ''user'' @ showNat i @ ''@x.com'',
                            u_createdAt = (if i < 160 then 0 else 100 * DAY),
                            u_updatedAt = (if i < 160 then 0 else 100 * DAY)\<rparr>) [0 ..< 183],
      responses = [], nextUserId = 184, nextResponseId = 1\<rparr>"

definition ratioWorld :: world where
  "ratioWorld = \<lparr>db = ratioStore, mailTrace = [], clients = []\<rparr>"

text \<open>Three signups with distinct emails, one second apart, on an empty store.\<close>

definition signupBody :: "string \<Rightarrow> json_object" where
  "signupBody em =
     [(''email'', JStr em), (''primarySkill'', JStr ''design''),
      (''biggestChallenge'', JStr ''finding_clients''), (''interestLevel'', JNum 5)]"

definition signupAs :: "string \<Rightarrow> int \<Rightarrow> world \<Rightarrow> waitlist_response \<times> world" where
  "signupAs em now w =
     post_waitlist emailRegex_test digitsToNumber noFault demoService okTransport now
       (signupBody em) w"

definition oneSignup :: world where
  "oneSignup = snd (signupAs ''a@x.com'' 1000 emptyWorld)"

definition twoSignups :: world where
  "twoSignups = snd (signupAs ''b@x.com'' 2000 oneSignup)"

definition threeSignups :: world where
  "threeSignups = snd (signupAs ''c@x.com'' 3000 twoSignups)"

section \<open>Doubles and their printing at some known values\<close>

text \<open>
  The double nearest to 1/10; the product \<open>23 / 160 * 100\<close> as the machine computes it,
  just below 14.375; \<open>2^53 + 1\<close>, a tie that goes to the even neighbour. And the strings
  of 2.5, of the double nearest to 1.1, and of a decimal that is read as 1.
\<close>

lemma toDouble_examples:
  "toDouble (1 / 10) = 3602879701896397 / 36028797018963968"
  "toDouble (toDouble (23 / 160) * 100) = 8092405580431359 / 562949953421312"
  "toDouble (9007199254740993) = 9007199254740992"
  by code_simp+

lemma Number_toString_examples:
  "Number_toString (5 / 2) = ''2.5''"
  "Number_toString (11 / 10) = ''1.1''"
  "Number_toString (10000000000000001 / 10000000000000000) = ''1''"
  by code_simp+

section \<open>Validation\<close>

lemma joi_string_required_Inr:
  "joi_string_required k v = Inr s \<longleftrightarrow> v = JStr s \<and> s \<noteq> []"
  by (cases v) auto

lemma joi_number_coerce_Inr:
  "joi_number_coerce toNumber k v = Inr q \<longleftrightarrow>
     v = JNum q \<or> (\<exists>t. v = JStr t \<and> toNumber t = Some q)"
  by (cases v) (auto split: option.splits)

lemma joi_number_1_5_Inr:
  "joi_number_1_5 toNumber k v = Inr q \<longleftrightarrow>
     (v = JNum q \<or> (\<exists>t. v = JStr t \<and> toNumber t = Some q)) \<and> 1 \<le> q \<and> q \<le> 5"
proof -
  have "joi_number_1_5 toNumber k v = Inr q \<longleftrightarrow>
          joi_number_coerce toNumber k v = Inr q \<and> 1 \<le> q \<and> q \<le> 5"
    by (auto simp: joi_number_1_5_def split: sum.splits if_splits)
  then show ?thesis by (simp add: joi_number_coerce_Inr)
qed

lemma unknownKeys_Nil:
  "filter (\<lambda>k. k \<notin> set schemaKeys) (map fst b) = [] \<longleftrightarrow> set (map fst b) \<subseteq> set schemaKeys"
  by (auto simp: filter_empty_conv)

lemma waitlistSchema_validate_Inr:
  "waitlistSchema_validate isEmail toNumber b = Inr v \<longleftrightarrow>
     joi_string_required ''email'' (getField b ''email'') = Inr (v_email v)
   \<and> isEmail (v_email v)
   \<and> joi_string_required ''primarySkill'' (getField b ''primarySkill'') = Inr (v_primarySkill v)
   \<and> joi_string_required ''biggestChallenge'' (getField b ''biggestChallenge'')
       = Inr (v_biggestChallenge v)
   \<and> joi_number_1_5 toNumber ''interestLevel'' (getField b ''interestLevel'')
       = Inr (v_interestLevel v)
   \<and> filter (\<lambda>k. k \<notin> set schemaKeys) (map fst b) = []"
  unfolding waitlistSchema_validate_def
  by (cases v) (auto split: sum.splits list.splits)

lemma waitlistSchema_accepts_iff:
  "(\<exists>v. waitlistSchema_validate isEmail toNumber b = Inr v) \<longleftrightarrow>
     fieldsOk isEmail b
   \<and> (\<exists>q. (getField b ''interestLevel'' = JNum q
             \<or> (\<exists>t. getField b ''interestLevel'' = JStr t \<and> toNumber t = Some q))
           \<and> 1 \<le> q \<and> q \<le> 5)"
  (is "?L \<longleftrightarrow> ?R")
proof
  assume ?L
  then obtain v where "waitlistSchema_validate isEmail toNumber b = Inr v" ..
  then show ?R
    unfolding waitlistSchema_validate_Inr joi_string_required_Inr joi_number_1_5_Inr
      unknownKeys_Nil fieldsOk_def
    by blast
next
  assume ?R
  then obtain e s c q where
    "getField b ''email'' = JStr e" "e \<noteq> []" "isEmail e"
    "getField b ''primarySkill'' = JStr s" "s \<noteq> []"
    "getField b ''biggestChallenge'' = JStr c" "c \<noteq> []"
    "getField b ''interestLevel'' = JNum q
       \<or> (\<exists>t. getField b ''interestLevel'' = JStr t \<and> toNumber t = Some q)"
    "1 \<le> q" "q \<le> 5" "set (map fst b) \<subseteq> set schemaKeys"
    unfolding fieldsOk_def by blast
  then have "waitlistSchema_validate isEmail toNumber b =
      Inr \<lparr>v_email = e, v_primarySkill = s, v_biggestChallenge = c, v_interestLevel = q\<rparr>"
    unfolding waitlistSchema_validate_Inr joi_string_required_Inr joi_number_1_5_Inr
      unknownKeys_Nil
    by simp
  then show ?L ..
qed

text \<open>
  Claim C3, as the schema has it. A body is accepted exactly when \<open>email\<close> is a non-empty
  string that passes the address check, \<open>primarySkill\<close> and \<open>biggestChallenge\<close> are
  non-empty strings, the body has no key besides the four, and \<open>interestLevel\<close> is a
  number \<open>q\<close> (or a string the coercion reads as \<open>q\<close>) with \<open>1 \<le> q \<le> 5\<close>, whole or not.
  A missing field is \<open>JUndefined\<close>, so the absence of any of the four fails. In particular,
  with the other fields in order, the levels 0 and 6 are rejected and each of 1, ..., 5 is
  accepted.
\<close>

theorem C3_validation_accepts_numbers_1_to_5:
  "((\<exists>v. waitlistSchema_validate isEmail toNumber b = Inr v) \<longleftrightarrow>
      fieldsOk isEmail b
    \<and> (\<exists>q. (getField b ''interestLevel'' = JNum q
              \<or> (\<exists>t. getField b ''interestLevel'' = JStr t \<and> toNumber t = Some q))
            \<and> 1 \<le> q \<and> q \<le> 5))
   \<and> (getField b ''interestLevel'' = JNum 0 \<or> getField b ''interestLevel'' = JNum 6
        \<longrightarrow> (\<exists>e. waitlistSchema_validate isEmail toNumber b = Inl e))
   \<and> (fieldsOk isEmail b \<and> getField b ''interestLevel'' = JNum (of_nat n) \<and> 1 \<le> n \<and> n \<le> 5
        \<longrightarrow> (\<exists>v. waitlistSchema_validate isEmail toNumber b = Inr v
                  \<and> v_interestLevel v = of_nat n))"
proof (intro conjI impI)
  show "(\<exists>v. waitlistSchema_validate isEmail toNumber b = Inr v) \<longleftrightarrow>
      fieldsOk isEmail b
    \<and> (\<exists>q. (getField b ''interestLevel'' = JNum q
              \<or> (\<exists>t. getField b ''interestLevel'' = JStr t \<and> toNumber t = Some q))
            \<and> 1 \<le> q \<and> q \<le> 5)"
    by (rule waitlistSchema_accepts_iff)
next
  assume "getField b ''interestLevel'' = JNum 0 \<or> getField b ''interestLevel'' = JNum 6"
  then have "\<not> (\<exists>v. waitlistSchema_validate isEmail toNumber b = Inr v)"
    unfolding waitlistSchema_accepts_iff by auto
  then show "\<exists>e. waitlistSchema_validate isEmail toNumber b = Inl e"
    by (cases "waitlistSchema_validate isEmail toNumber b") auto
next
  assume a: "fieldsOk isEmail b \<and> getField b ''interestLevel'' = JNum (of_nat n) \<and> 1 \<le> n \<and> n \<le> 5"
  then have "\<exists>v. waitlistSchema_validate isEmail toNumber b = Inr v"
    unfolding waitlistSchema_accepts_iff by auto
  then obtain v where v: "waitlistSchema_validate isEmail toNumber b = Inr v" ..
  then have "joi_number_1_5 toNumber ''interestLevel'' (getField b ''interestLevel'')
      = Inr (v_interestLevel v)"
    by (simp add: waitlistSchema_validate_Inr)
  with a have "v_interestLevel v = of_nat n"
    by (simp add: joi_number_1_5_Inr)
  with v show "\<exists>v. waitlistSchema_validate isEmail toNumber b = Inr v \<and> v_interestLevel v = of_nat n"
    by blast
qed

lemma emailRegex_test_example: "emailRegex_test ''a@x.com''"
  by code_simp

lemma fieldsOk_exampleBody: "fieldsOk emailRegex_test (exampleBody lvl)"
  using emailRegex_test_example
  by (simp add: fieldsOk_def exampleBody_def getField_def schemaKeys_def)

theorem C3_validation_witness:
  "(\<exists>e. waitlistSchema_validate emailRegex_test digitsToNumber (exampleBody (JNum 0)) = Inl e)
   \<and> (\<exists>v. waitlistSchema_validate emailRegex_test digitsToNumber (exampleBody (JNum 3)) = Inr v
          \<and> v_interestLevel v = 3)"
  using C3_validation_accepts_numbers_1_to_5
          [of emailRegex_test digitsToNumber "exampleBody (JNum 0)" 0]
        C3_validation_accepts_numbers_1_to_5
          [of emailRegex_test digitsToNumber "exampleBody (JNum 3)" 3]
        fieldsOk_exampleBody [of "JNum 0"] fieldsOk_exampleBody [of "JNum 3"]
  by (simp add: exampleBody_def getField_def)

text \<open>
  The claim as written asks for an integer and for nothing about other keys. The schema
  has no integer rule: the level 5/2, which lies strictly between 2 and 3, is accepted.
  And it names its keys: a body with the four fields in order and one more key is
  rejected.
\<close>

theorem C3_non_integer_level_accepted:
  "waitlistSchema_validate emailRegex_test digitsToNumber (exampleBody (JNum (5 / 2)))
     = Inr \<lparr>v_email = ''a@x.com'', v_primarySkill = ''design'',
            v_biggestChallenge = ''finding_clients'', v_interestLevel = 5 / 2\<rparr>
   \<and> (2 :: rat) < 5 / 2 \<and> (5 / 2 :: rat) < 3
   \<and> waitlistSchema_validate emailRegex_test digitsToNumber
         (exampleBody (JNum 5) @ [(''referrer'', JStr ''friend'')])
       = Inl (ObjectUnknown ''referrer'')"
  using emailRegex_test_example
  by (simp add: waitlistSchema_validate_Inr joi_string_required_Inr joi_number_1_5_Inr
        exampleBody_def getField_def schemaKeys_def)
    (simp add: waitlistSchema_validate_def joi_number_1_5_def getField_def schemaKeys_def)

section \<open>Welcome mails and broadcasts\<close>


























lemma batchesOf_append: "batchesOf (xs @ ys) = batchesOf xs @ batchesOf ys"
  by (induction xs rule: batchesOf.induct) simp_all











text \<open>
  Claim C7. With no mail transport configured, \<^verbatim>\<open>sendWelcomeEmail\<close> returns a success for
  every recipient and profile and leaves the trace of the transport as it was, so the
  transport is never called. The signup route, its caller, does not call it either, and
  whenever it answers 201 it reports the mail as sent.
\<close>

theorem C7_demo_mode_succeeds_without_sending:
  assumes "\<not> isConfigured svc"
  shows "sendWelcomeEmail svc send tr userEmail ud = (\<lparr>e_success = True, e_error = None\<rparr>, tr)
    \<and> mailTrace (snd (post_waitlist isEmail toNumber flt svc send now body w)) = mailTrace w
    \<and> (\<forall>uid emailSent pos.
          fst (post_waitlist isEmail toNumber flt svc send now body w) = Status201 uid emailSent pos
            \<longrightarrow> emailSent)"
  using assms
  by (auto simp: sendWelcomeEmail_def post_waitlist_def Let_def
           split: sum.splits option.splits prod.splits)

theorem C7_witness:
  "sendWelcomeEmail demoService downTransport [] ''a@x.com''
      \<lparr>ud_position = 1, ud_primarySkill = ''design'', ud_biggestChallenge = ''finding_clients'',
       ud_interestLevel = 5, ud_email = ''a@x.com''\<rparr>
     = (\<lparr>e_success = True, e_error = None\<rparr>, [])"
  using C7_demo_mode_succeeds_without_sending [of demoService downTransport "[]" "''a@x.com''"]
  by (simp add: demoService_def)














section \<open>The peak hour\<close>







section \<open>The signup pipeline\<close>

lemma find_None_emails:
  "find (\<lambda>u. u_email u = em) us = None \<longleftrightarrow> em \<notin> set (map u_email us)"
  by (auto simp: find_None_iff)

lemma find_Some_emails:
  "em \<in> set (map u_email us) \<Longrightarrow> \<exists>u. find (\<lambda>u. u_email u = em) us = Some u"
  by (cases "find (\<lambda>u. u_email u = em) us") (auto simp: find_None_iff)

lemma signupTx_fault:
  "insertFault flt \<Longrightarrow> \<exists>e. signupTx flt now v s = Inl e"
  by (auto simp: insertFault_def signupTx_def user_create_def response_create_def Let_def
           split: sum.splits prod.splits)

lemma signupTx_commit:
  assumes "\<not> insertFault flt" and "v_email v \<notin> set (map u_email (users s))"
  shows "\<exists>u r1 r2 r3 s1.
     signupTx flt now v s = Inr ((u, [r1, r2, r3]), s1)
   \<and> users s1 = users s @ [u] \<and> responses s1 = responses s @ [r1, r2, r3]
   \<and> u_id u = nextUserId s \<and> u_email u = v_email v \<and> u_createdAt u = now
   \<and> r_userId r1 = u_id u \<and> r_userId r2 = u_id u \<and> r_userId r3 = u_id u
   \<and> r_questionId r1 = ''primary_skill'' \<and> r_answer r1 = v_primarySkill v
   \<and> r_questionId r2 = ''biggest_challenge'' \<and> r_answer r2 = v_biggestChallenge v
   \<and> r_questionId r3 = ''interest_level'' \<and> r_answer r3 = Number_toString (v_interestLevel v)"
  using assms
  by (simp add: insertFault_def signupTx_def user_create_def response_create_def Let_def)

lemma transaction_rollback: "body s = Inl e \<Longrightarrow> transaction body s = (Inl e, s)"
  by (simp add: transaction_def)

lemma transaction_commit: "body s = Inr (x, s1) \<Longrightarrow> transaction body s = (Inr x, s1)"
  by (simp add: transaction_def)

lemma post_waitlist_rollback:
  assumes "waitlistSchema_validate isEmail toNumber body = Inr v"
    and "\<not> flt UserFindUnique"
    and "v_email v \<notin> set (map u_email (users (db w)))"
    and "insertFault flt"
  shows "post_waitlist isEmail toNumber flt svc send now body w = (Status500, w)"
proof -
  from signupTx_fault [OF assms(4)] obtain e where "signupTx flt now v (db w) = Inl e" ..
  then have "transaction (signupTx flt now v) (db w) = (Inl e, db w)"
    by (rule transaction_rollback)
  with assms(1-3) show ?thesis
    by (simp add: post_waitlist_def user_findUnique_def find_None_emails [THEN iffD2])
qed


lemma post_waitlist_commit:
  assumes "waitlistSchema_validate isEmail toNumber body = Inr v"
    and "\<not> flt UserFindUnique"
    and "v_email v \<notin> set (map u_email (users (db w)))"
    and "\<not> insertFault flt"
  shows "\<exists>u r1 r2 r3.
     users (db (snd (post_waitlist isEmail toNumber flt svc send now body w)))
       = users (db w) @ [u]
   \<and> responses (db (snd (post_waitlist isEmail toNumber flt svc send now body w)))
       = responses (db w) @ [r1, r2, r3]
   \<and> u_id u = nextUserId (db w) \<and> u_email u = v_email v \<and> u_createdAt u = now
   \<and> r_userId r1 = u_id u \<and> r_userId r2 = u_id u \<and> r_userId r3 = u_id u
   \<and> r_questionId r1 = ''primary_skill'' \<and> r_answer r1 = v_primarySkill v
   \<and> r_questionId r2 = ''biggest_challenge'' \<and> r_answer r2 = v_biggestChallenge v
   \<and> r_questionId r3 = ''interest_level'' \<and> r_answer r3 = Number_toString (v_interestLevel v)
   \<and> fst (post_waitlist isEmail toNumber flt svc send now body w)
       = (if flt UserCount then Status500
          else Status201 (u_id u)
                 (e_success (fst (sendWelcomeEmail svc send (mailTrace w) (v_email v)
                    \<lparr>ud_position = Suc (length (users (db w))),
                     ud_primarySkill = v_primarySkill v,
                     ud_biggestChallenge = v_biggestChallenge v,
                     ud_interestLevel = v_interestLevel v,
                     ud_email = v_email v\<rparr>)))
                 (Suc (length (users (db w)))))"
proof -
  from signupTx_commit [OF assms(4,3), of now] obtain u r1 r2 r3 s1 where
    tx: "signupTx flt now v (db w) = Inr ((u, [r1, r2, r3]), s1)"
    and s1: "users s1 = users (db w) @ [u]" "responses s1 = responses (db w) @ [r1, r2, r3]"
    and rest: "u_id u = nextUserId (db w) \<and> u_email u = v_email v \<and> u_createdAt u = now
   \<and> r_userId r1 = u_id u \<and> r_userId r2 = u_id u \<and> r_userId r3 = u_id u
   \<and> r_questionId r1 = ''primary_skill'' \<and> r_answer r1 = v_primarySkill v
   \<and> r_questionId r2 = ''biggest_challenge'' \<and> r_answer r2 = v_biggestChallenge v
   \<and> r_questionId r3 = ''interest_level'' \<and> r_answer r3 = Number_toString (v_interestLevel v)"
    by blast
  have t: "transaction (signupTx flt now v) (db w) = (Inr (u, [r1, r2, r3]), s1)"
    using tx by (rule transaction_commit)
  have f: "user_findUnique flt (db w) (v_email v) = Inr None"
    using assms(2,3) by (simp add: user_findUnique_def find_None_emails [THEN iffD2])
  have "users (db (snd (post_waitlist isEmail toNumber flt svc send now body w))) = users s1
      \<and> responses (db (snd (post_waitlist isEmail toNumber flt svc send now body w))) = responses s1
      \<and> fst (post_waitlist isEmail toNumber flt svc send now body w)
       = (if flt UserCount then Status500
          else Status201 (u_id u)
                 (e_success (fst (sendWelcomeEmail svc send (mailTrace w) (v_email v)
                    \<lparr>ud_position = Suc (length (users (db w))),
                     ud_primarySkill = v_primarySkill v,
                     ud_biggestChallenge = v_biggestChallenge v,
                     ud_interestLevel = v_interestLevel v,
                     ud_email = v_email v\<rparr>)))
                 (Suc (length (users (db w)))))"
    using assms(1) f t s1
    by (simp add: post_waitlist_def user_count_def Let_def split: prod.splits)
  with s1 rest show ?thesis by auto
qed

lemma post_waitlist_conflict:
  assumes "waitlistSchema_validate isEmail toNumber body = Inr v"
    and "\<not> flt UserFindUnique"
    and "v_email v \<in> set (map u_email (users (db w)))"
  shows "post_waitlist isEmail toNumber flt svc send now body w = (Status409, w)"
proof -
  from find_Some_emails [OF assms(3)] obtain u where
    "find (\<lambda>u. u_email u = v_email v) (users (db w)) = Some u" ..
  with assms(1,2) show ?thesis
    by (simp add: post_waitlist_def user_findUnique_def)
qed

lemma post_waitlist_201:
  assumes "post_waitlist isEmail toNumber flt svc send now body w = (Status201 uid sent pos, w1)"
  shows "\<exists>v u. waitlistSchema_validate isEmail toNumber body = Inr v
     \<and> users (db w1) = users (db w) @ [u] \<and> u_email u = v_email v
     \<and> u_createdAt u = now \<and> pos = length (users (db w1))"
proof -
  from assms obtain v where v: "waitlistSchema_validate isEmail toNumber body = Inr v"
    by (cases "waitlistSchema_validate isEmail toNumber body") (auto simp: post_waitlist_def)
  from assms v have nf: "\<not> flt UserFindUnique"
    by (auto simp: post_waitlist_def user_findUnique_def)
  have nd: "v_email v \<notin> set (map u_email (users (db w)))"
  proof
    assume "v_email v \<in> set (map u_email (users (db w)))"
    with v nf have "post_waitlist isEmail toNumber flt svc send now body w = (Status409, w)"
      by (rule post_waitlist_conflict)
    with assms show False by simp
  qed
  have ni: "\<not> insertFault flt"
  proof
    assume "insertFault flt"
    with v nf nd have "post_waitlist isEmail toNumber flt svc send now body w = (Status500, w)"
      by (rule post_waitlist_rollback)
    with assms show False by simp
  qed
  from v nf nd ni have "\<exists>u r1 r2 r3.
     users (db (snd (post_waitlist isEmail toNumber flt svc send now body w)))
       = users (db w) @ [u]
   \<and> responses (db (snd (post_waitlist isEmail toNumber flt svc send now body w)))
       = responses (db w) @ [r1, r2, r3]
   \<and> u_id u = nextUserId (db w) \<and> u_email u = v_email v \<and> u_createdAt u = now
   \<and> r_userId r1 = u_id u \<and> r_userId r2 = u_id u \<and> r_userId r3 = u_id u
   \<and> r_questionId r1 = ''primary_skill'' \<and> r_answer r1 = v_primarySkill v
   \<and> r_questionId r2 = ''biggest_challenge'' \<and> r_answer r2 = v_biggestChallenge v
   \<and> r_questionId r3 = ''interest_level'' \<and> r_answer r3 = Number_toString (v_interestLevel v)
   \<and> fst (post_waitlist isEmail toNumber flt svc send now body w)
       = (if flt UserCount then Status500
          else Status201 (u_id u)
                 (e_success (fst (sendWelcomeEmail svc send (mailTrace w) (v_email v)
                    \<lparr>ud_position = Suc (length (users (db w))),
                     ud_primarySkill = v_primarySkill v,
                     ud_biggestChallenge = v_biggestChallenge v,
                     ud_interestLevel = v_interestLevel v,
                     ud_email = v_email v\<rparr>)))
                 (Suc (length (users (db w)))))"
    by (rule post_waitlist_commit)
  with assms v show ?thesis
    by (auto split: if_splits)
qed

lemma Number_toString_levels:
  "Number_toString 1 = ''1''" "Number_toString 2 = ''2''" "Number_toString 3 = ''3''"
  "Number_toString 4 = ''4''" "Number_toString 5 = ''5''"
  by code_simp+

lemma showNat_levels:
  "showNat 1 = ''1''" "showNat 2 = ''2''" "showNat 3 = ''3''" "showNat 4 = ''4''"
  "showNat 5 = ''5''"
  by code_simp+

lemma Number_toString_of_nat:
  assumes "1 \<le> (of_nat n :: rat)" and "(of_nat n :: rat) \<le> 5"
  shows "Number_toString (of_nat n) = showNat n"
proof -
  from assms have "(of_nat 1 :: rat) \<le> of_nat n" and "(of_nat n :: rat) \<le> of_nat 5"
    by simp_all
  then have "1 \<le> n" and "n \<le> 5"
    by (simp_all only: of_nat_le_iff)
  then have "n = 1 \<or> n = 2 \<or> n = 3 \<or> n = 4 \<or> n = 5"
    by arith
  then show ?thesis
    by (elim disjE)
       (simp_all add: Number_toString_levels showNat_levels showNat_levels(1) [unfolded One_nat_def])
qed

lemma validated_level:
  assumes "waitlistSchema_validate isEmail toNumber body = Inr v"
  shows "1 \<le> v_interestLevel v \<and> v_interestLevel v \<le> 5"
  using assms by (simp add: waitlistSchema_validate_Inr joi_number_1_5_Inr)


text \<open>
  Claim C1. A submission that passes validation and whose email is not in the store
  (the lookup itself answering) is persisted as a unit. When one of the four inserts
  rejects, the route answers 500 and the world, the store included, is what it was: the
  user row is rolled back with the rest. Otherwise the store gains exactly one user row,
  with the email, and exactly three response rows tied to it, with the question ids
  \<open>primary_skill\<close>, \<open>biggest_challenge\<close>, \<open>interest_level\<close> and the answers of the
  submission, the interest level as its string: for a whole number its decimal digits.
\<close>

theorem C1_signup_rows_all_or_nothing:
  assumes "waitlistSchema_validate isEmail toNumber body = Inr v"
    and "\<not> flt UserFindUnique"
    and "v_email v \<notin> set (map u_email (users (db w)))"
  shows "(insertFault flt \<longrightarrow>
            post_waitlist isEmail toNumber flt svc send now body w = (Status500, w))
    \<and> (\<not> insertFault flt \<longrightarrow>
         (\<exists>u r1 r2 r3.
             users (db (snd (post_waitlist isEmail toNumber flt svc send now body w)))
               = users (db w) @ [u]
           \<and> responses (db (snd (post_waitlist isEmail toNumber flt svc send now body w)))
               = responses (db w) @ [r1, r2, r3]
           \<and> u_email u = v_email v
           \<and> r_userId r1 = u_id u \<and> r_userId r2 = u_id u \<and> r_userId r3 = u_id u
           \<and> r_questionId r1 = ''primary_skill'' \<and> r_answer r1 = v_primarySkill v
           \<and> r_questionId r2 = ''biggest_challenge'' \<and> r_answer r2 = v_biggestChallenge v
           \<and> r_questionId r3 = ''interest_level''
           \<and> r_answer r3 = Number_toString (v_interestLevel v)))
    \<and> (\<forall>n. v_interestLevel v = of_nat n \<longrightarrow> Number_toString (v_interestLevel v) = showNat n)"
proof (intro conjI impI allI)
  assume "insertFault flt"
  with assms show "post_waitlist isEmail toNumber flt svc send now body w = (Status500, w)"
    by (rule post_waitlist_rollback)
next
  assume "\<not> insertFault flt"
  with assms have "\<exists>u r1 r2 r3.
     users (db (snd (post_waitlist isEmail toNumber flt svc send now body w)))
       = users (db w) @ [u]
   \<and> responses (db (snd (post_waitlist isEmail toNumber flt svc send now body w)))
       = responses (db w) @ [r1, r2, r3]
   \<and> u_id u = nextUserId (db w) \<and> u_email u = v_email v \<and> u_createdAt u = now
   \<and> r_userId r1 = u_id u \<and> r_userId r2 = u_id u \<and> r_userId r3 = u_id u
   \<and> r_questionId r1 = ''primary_skill'' \<and> r_answer r1 = v_primarySkill v
   \<and> r_questionId r2 = ''biggest_challenge'' \<and> r_answer r2 = v_biggestChallenge v
   \<and> r_questionId r3 = ''interest_level'' \<and> r_answer r3 = Number_toString (v_interestLevel v)
   \<and> fst (post_waitlist isEmail toNumber flt svc send now body w)
       = (if flt UserCount then Status500
          else Status201 (u_id u)
                 (e_success (fst (sendWelcomeEmail svc send (mailTrace w) (v_email v)
                    \<lparr>ud_position = Suc (length (users (db w))),
                     ud_primarySkill = v_primarySkill v,
                     ud_biggestChallenge = v_biggestChallenge v,
                     ud_interestLevel = v_interestLevel v,
                     ud_email = v_email v\<rparr>)))
                 (Suc (length (users (db w)))))"
    by (rule post_waitlist_commit)
  then show "\<exists>u r1 r2 r3.
             users (db (snd (post_waitlist isEmail toNumber flt svc send now body w)))
               = users (db w) @ [u]
           \<and> responses (db (snd (post_waitlist isEmail toNumber flt svc send now body w)))
               = responses (db w) @ [r1, r2, r3]
           \<and> u_email u = v_email v
           \<and> r_userId r1 = u_id u \<and> r_userId r2 = u_id u \<and> r_userId r3 = u_id u
           \<and> r_questionId r1 = ''primary_skill'' \<and> r_answer r1 = v_primarySkill v
           \<and> r_questionId r2 = ''biggest_challenge'' \<and> r_answer r2 = v_biggestChallenge v
           \<and> r_questionId r3 = ''interest_level''
           \<and> r_answer r3 = Number_toString (v_interestLevel v)"
    by blast
next
  fix n assume "v_interestLevel v = of_nat n"
  with validated_level [OF assms(1)] show "Number_toString (v_interestLevel v) = showNat n"
    by (simp add: Number_toString_of_nat)
qed

lemma validate_exampleBody:
  "waitlistSchema_validate emailRegex_test digitsToNumber (exampleBody (JNum 5)) = Inr exampleValue"
  using emailRegex_test_example
  by (simp add: waitlistSchema_validate_Inr joi_string_required_Inr joi_number_1_5_Inr
        exampleBody_def exampleValue_def getField_def schemaKeys_def)

theorem C1_witness:
  "post_waitlist emailRegex_test digitsToNumber interestFault demoService okTransport 1000
       (exampleBody (JNum 5)) emptyWorld = (Status500, emptyWorld)
   \<and> map r_answer (responses (db (snd (post_waitlist emailRegex_test digitsToNumber noFault
         demoService okTransport 1000 (exampleBody (JNum 5)) emptyWorld)))) 
       = [''design'', ''finding_clients'', ''5'']"
proof -
  have nd: "v_email exampleValue \<notin> set (map u_email (users (db emptyWorld)))"
    by (simp add: emptyWorld_def emptyStore_def)
  have 5: "showNat 5 = ''5''" by code_simp
  have v5: "v_interestLevel exampleValue = of_nat 5"
    by (simp add: exampleValue_def)
  have a: "post_waitlist emailRegex_test digitsToNumber interestFault demoService okTransport 1000
       (exampleBody (JNum 5)) emptyWorld = (Status500, emptyWorld)"
    using C1_signup_rows_all_or_nothing [OF validate_exampleBody _ nd, of interestFault]
    by (simp add: interestFault_def insertFault_def)
  have b: "map r_answer (responses (db (snd (post_waitlist emailRegex_test digitsToNumber noFault
         demoService okTransport 1000 (exampleBody (JNum 5)) emptyWorld)))) 
       = [''design'', ''finding_clients'', ''5'']"
    using C1_signup_rows_all_or_nothing [OF validate_exampleBody _ nd, of noFault
            demoService okTransport 1000] 5 v5
    by (auto simp: noFault_def insertFault_def emptyWorld_def emptyStore_def exampleValue_def)
  from a b show ?thesis ..
qed

text \<open>
  Claim C2. A valid submission whose email is in the store is answered with 409 and
  changes nothing. So after a signup that was answered with 201, a second valid
  submission with the same email, at any later time and whatever its other fields, gets
  409 and leaves the world untouched: across the two submits the number of users has
  grown by exactly one, and the rows that were there are unchanged.
\<close>

theorem C2_duplicate_email_conflict:
  "(waitlistSchema_validate isEmail toNumber body = Inr v
      \<and> \<not> flt UserFindUnique
      \<and> v_email v \<in> set (map u_email (users (db w)))
     \<longrightarrow> post_waitlist isEmail toNumber flt svc send now body w = (Status409, w))
   \<and> (post_waitlist isEmail toNumber fltA svcA sendA nowA bodyA w = (Status201 uid sent pos, wA)
      \<and> getField bodyB ''email'' = getField bodyA ''email''
      \<and> waitlistSchema_validate isEmail toNumber bodyB = Inr vB
      \<and> \<not> fltB UserFindUnique
     \<longrightarrow> post_waitlist isEmail toNumber fltB svcB sendB nowB bodyB wA = (Status409, wA)
        \<and> length (users (db wA)) = length (users (db w)) + 1
        \<and> take (length (users (db w))) (users (db wA)) = users (db w))"
proof (rule conjI; rule impI)
  assume "waitlistSchema_validate isEmail toNumber body = Inr v
      \<and> \<not> flt UserFindUnique
      \<and> v_email v \<in> set (map u_email (users (db w)))"
  then show "post_waitlist isEmail toNumber flt svc send now body w = (Status409, w)"
    by (intro post_waitlist_conflict) auto
next
  assume a: "post_waitlist isEmail toNumber fltA svcA sendA nowA bodyA w = (Status201 uid sent pos, wA)
      \<and> getField bodyB ''email'' = getField bodyA ''email''
      \<and> waitlistSchema_validate isEmail toNumber bodyB = Inr vB
      \<and> \<not> fltB UserFindUnique"
  then have "\<exists>v u. waitlistSchema_validate isEmail toNumber bodyA = Inr v
     \<and> users (db wA) = users (db w) @ [u] \<and> u_email u = v_email v
     \<and> u_createdAt u = nowA \<and> pos = length (users (db wA))"
    by (intro post_waitlist_201) auto
  then obtain v1 u where v1: "waitlistSchema_validate isEmail toNumber bodyA = Inr v1"
    and u: "users (db wA) = users (db w) @ [u]" "u_email u = v_email v1"
    by blast
  from v1 a have "v_email vB = v_email v1"
    by (auto simp: waitlistSchema_validate_Inr joi_string_required_Inr)
  with u have "v_email vB \<in> set (map u_email (users (db wA)))" by simp
  with a have "post_waitlist isEmail toNumber fltB svcB sendB nowB bodyB wA = (Status409, wA)"
    by (intro post_waitlist_conflict) auto
  with u show "post_waitlist isEmail toNumber fltB svcB sendB nowB bodyB wA = (Status409, wA)
        \<and> length (users (db wA)) = length (users (db w)) + 1
        \<and> take (length (users (db w))) (users (db wA)) = users (db w)"
    by simp
qed


lemma firstSignup_fst: "fst firstSignup = Status201 1 True 1"
  unfolding firstSignup_def by code_simp

theorem C2_witness:
  "post_waitlist emailRegex_test digitsToNumber noFault liveService downTransport 2000
       (exampleBody (JNum 3)) (snd firstSignup) = (Status409, snd firstSignup)
   \<and> length (users (db (snd firstSignup))) = 1"
proof -
  have 1: "post_waitlist emailRegex_test digitsToNumber noFault demoService okTransport 1000
       (exampleBody (JNum 5)) emptyWorld = (Status201 1 True 1, snd firstSignup)"
    using firstSignup_fst by (simp add: firstSignup_def prod_eq_iff)
  have 2: "getField (exampleBody (JNum 3)) ''email'' = getField (exampleBody (JNum 5)) ''email''"
    by (simp add: exampleBody_def getField_def)
  have 3: "waitlistSchema_validate emailRegex_test digitsToNumber (exampleBody (JNum 3))
      = Inr (exampleValue\<lparr>v_interestLevel := 3\<rparr>)"
    using emailRegex_test_example
    by (simp add: waitlistSchema_validate_Inr joi_string_required_Inr joi_number_1_5_Inr
        exampleBody_def exampleValue_def getField_def schemaKeys_def)
  have 4: "\<not> noFault UserFindUnique" by (simp add: noFault_def)
  from C2_duplicate_email_conflict
         [where isEmail = emailRegex_test and toNumber = digitsToNumber
            and fltA = noFault and svcA = demoService and sendA = okTransport
            and nowA = 1000 and bodyA = "exampleBody (JNum 5)" and w = emptyWorld
            and uid = 1 and sent = True and pos = 1 and wA = "snd firstSignup"
            and bodyB = "exampleBody (JNum 3)"
            and vB = "exampleValue\<lparr>v_interestLevel := 3\<rparr>" and fltB = noFault
            and svcB = liveService and sendB = downTransport and nowB = 2000]
       1 2 3 4
  show ?thesis by (simp add: emptyWorld_def emptyStore_def)
qed

text \<open>
  Claim C4. For a valid submission whose email is not in the store, with the store
  answering every query, the route answers 201 with a position that is the number of
  users after the insert, one more than before; \<^verbatim>\<open>GET /api/stats\<close> right after shows
  \<open>totalSignups\<close> one higher than before and \<open>spotsLeft = max (500 - totalSignups) 0\<close>.
  On an empty store the position is 1 and the stats are 1 and 499.
\<close>

theorem C4_position_and_stats_after_signup:
  assumes "waitlistSchema_validate isEmail toNumber body = Inr v"
    and "v_email v \<notin> set (map u_email (users (db w)))"
    and "\<forall>op. \<not> flt op"
    and "\<not> fltS UserCount"
  shows "(\<exists>uid sent. fst (post_waitlist isEmail toNumber flt svc send now body w)
            = Status201 uid sent (length (users (db w)) + 1))
    \<and> length (users (db (snd (post_waitlist isEmail toNumber flt svc send now body w))))
        = length (users (db w)) + 1
    \<and> get_stats fltS w
        = StatsOk (length (users (db w))) (max (500 - int (length (users (db w)))) 0)
    \<and> get_stats fltS (snd (post_waitlist isEmail toNumber flt svc send now body w))
        = StatsOk (length (users (db w)) + 1) (max (500 - int (length (users (db w)) + 1)) 0)
    \<and> (users (db w) = [] \<longrightarrow>
          (\<exists>uid sent. fst (post_waitlist isEmail toNumber flt svc send now body w)
             = Status201 uid sent 1)
        \<and> get_stats fltS (snd (post_waitlist isEmail toNumber flt svc send now body w))
             = StatsOk 1 499)"
proof -
  let ?R = "post_waitlist isEmail toNumber flt svc send now body w"
  have nf: "\<not> flt UserFindUnique" and ni: "\<not> insertFault flt" and nc: "\<not> flt UserCount"
    using assms(3) by (simp_all add: insertFault_def)
  from assms(1) nf assms(2) ni have "\<exists>u r1 r2 r3.
     users (db (snd ?R)) = users (db w) @ [u]
   \<and> responses (db (snd ?R)) = responses (db w) @ [r1, r2, r3]
   \<and> u_id u = nextUserId (db w) \<and> u_email u = v_email v \<and> u_createdAt u = now
   \<and> r_userId r1 = u_id u \<and> r_userId r2 = u_id u \<and> r_userId r3 = u_id u
   \<and> r_questionId r1 = ''primary_skill'' \<and> r_answer r1 = v_primarySkill v
   \<and> r_questionId r2 = ''biggest_challenge'' \<and> r_answer r2 = v_biggestChallenge v
   \<and> r_questionId r3 = ''interest_level'' \<and> r_answer r3 = Number_toString (v_interestLevel v)
   \<and> fst ?R
       = (if flt UserCount then Status500
          else Status201 (u_id u)
                 (e_success (fst (sendWelcomeEmail svc send (mailTrace w) (v_email v)
                    \<lparr>ud_position = Suc (length (users (db w))),
                     ud_primarySkill = v_primarySkill v,
                     ud_biggestChallenge = v_biggestChallenge v,
                     ud_interestLevel = v_interestLevel v,
                     ud_email = v_email v\<rparr>)))
                 (Suc (length (users (db w)))))"
    by (rule post_waitlist_commit)
  then obtain u sent where
    us: "users (db (snd ?R)) = users (db w) @ [u]"
    and r: "fst ?R = Status201 (u_id u) sent (Suc (length (users (db w))))"
    using nc by auto
  have 1: "\<exists>uid sent. fst ?R = Status201 uid sent (length (users (db w)) + 1)"
    using r by simp
  have 2: "length (users (db (snd ?R))) = length (users (db w)) + 1"
    using us by simp
  have 3: "get_stats fltS w
        = StatsOk (length (users (db w))) (max (500 - int (length (users (db w)))) 0)"
    using assms(4) by (simp add: get_stats_def user_count_def)
  have 4: "get_stats fltS (snd ?R)
        = StatsOk (length (users (db w)) + 1) (max (500 - int (length (users (db w)) + 1)) 0)"
    using assms(4) 2 by (simp add: get_stats_def user_count_def)
  have 5: "users (db w) = [] \<longrightarrow>
          (\<exists>uid sent. fst ?R = Status201 uid sent 1) \<and> get_stats fltS (snd ?R) = StatsOk 1 499"
    using 1 4 by auto
  from 1 2 3 4 5 show ?thesis by blast
qed

theorem C4_witness:
  "(\<exists>uid sent. fst firstSignup = Status201 uid sent 1)
   \<and> get_stats noFault (snd firstSignup) = StatsOk 1 499"
proof -
  have nd: "v_email exampleValue \<notin> set (map u_email (users (db emptyWorld)))"
    by (simp add: emptyWorld_def emptyStore_def)
  have nf: "\<forall>op. \<not> noFault op" by (simp add: noFault_def)
  have nc: "\<not> noFault UserCount" by (simp add: noFault_def)
  have e: "users (db emptyWorld) = []" by (simp add: emptyWorld_def emptyStore_def)
  from C4_position_and_stats_after_signup
         [where isEmail = emailRegex_test and toNumber = digitsToNumber
            and body = "exampleBody (JNum 5)" and v = exampleValue and w = emptyWorld
            and flt = noFault and fltS = noFault and svc = demoService
            and send = okTransport and now = 1000,
          OF validate_exampleBody nd nf nc] e
  show ?thesis unfolding firstSignup_def by blast
qed

section \<open>The weekly growth rate\<close>

lemma get_comprehensive_totals:
  assumes "get_comprehensive flt tz today w = Some r"
  shows "totalUsers r = length (users (db w))"
    and "usersThisWeek r = countSince (db w) (today - 7 * DAY)"
    and "dailySignups r = dailySignupsArray (db w) today"
proof -
  from assms have r: "r = the (get_comprehensive flt tz today w)" by simp
  from assms have f: "\<not> (flt UserCount \<or> flt UserFindMany \<or> flt ResponseGroupBy
      \<or> flt ResponseCount)"
    by (auto simp: get_comprehensive_def)
  show "totalUsers r = length (users (db w))"
    unfolding r using f by (simp add: get_comprehensive_def Let_def)
  show "usersThisWeek r = countSince (db w) (today - 7 * DAY)"
    unfolding r using f by (simp add: get_comprehensive_def Let_def)
  show "dailySignups r = dailySignupsArray (db w) today"
    unfolding r using f by (simp add: get_comprehensive_def Let_def)
qed


lemma of_char_digitChar: "d < 10 \<Longrightarrow> of_char (digitChar d) = 48 + d"
  by (simp add: digitChar_def)

lemma showNat_ne: "showNat n \<noteq> []"
  by (subst showNat.simps) simp

lemma digitChar_below: "(of_char (digitChar (n mod 10)) :: nat) < 58"
proof -
  have "n mod 10 < 10" by simp
  then have "(of_char (digitChar (n mod 10)) :: nat) = 48 + n mod 10"
    by (rule of_char_digitChar)
  then show ?thesis by simp
qed

lemma showNat_chars: "c \<in> set (showNat n) \<Longrightarrow> (of_char c :: nat) < 58"
proof (induction n rule: showNat.induct)
  case (1 n)
  show ?case
  proof (cases "n < 10")
    case True
    with "1.prems" have "c = digitChar n"
      by (subst (asm) showNat.simps) simp
    with True digitChar_below [of n] show ?thesis by simp
  next
    case False
    with "1.prems" have "c \<in> set (showNat (n div 10)) \<or> c = digitChar (n mod 10)"
      by (subst (asm) showNat.simps) auto
    with False "1.IH" digitChar_below [of n] show ?thesis by auto
  qed
qed

lemma toFixed_2_not_infinity: "toFixed 2 q \<noteq> infinitySign"
proof
  assume e: "toFixed 2 q = infinitySign"
  let ?n = "nat \<lfloor>q * 10 ^ 2 + 1 / 2\<rfloor>"
  obtain c cs where s: "showNat (?n div 10 ^ 2) = c # cs"
    using showNat_ne [of "?n div 10 ^ 2"] by (cases "showNat (?n div 10 ^ 2)") auto
  then have "c \<in> set (showNat (?n div 10 ^ 2))" by simp
  then have c: "(of_char c :: nat) < 58" by (rule showNat_chars)
  from e s have "c = CHR 0xE2"
    by (simp add: toFixed_def Let_def infinitySign_def)
  with c show False by simp
qed


lemma padDigits_2: "padDigits 2 m = [digitChar (m div 10 mod 10), digitChar (m mod 10)]"
proof -
  have "padDigits (Suc (Suc 0)) m = [digitChar (m div 10 mod 10), digitChar (m mod 10)]"
    by simp
  then show ?thesis by (simp only: numeral_2_eq_2)
qed

lemma three_digits:
  "(n div 100) * 100 + (n mod 100 div 10 mod 10) * 10 + n mod 100 mod 10 = (n :: nat)"
proof -
  have "n mod 100 div 10 < 10"
    by (simp add: less_mult_imp_div_less)
  then have a: "n mod 100 div 10 mod 10 = n mod 100 div 10"
    by simp
  have b: "n mod 100 div 10 * 10 + n mod 100 mod 10 = n mod 100"
    by (rule div_mult_mod_eq)
  have c: "n div 100 * 100 + n mod 100 = n"
    by (rule div_mult_mod_eq)
  from a b c show ?thesis by (simp only: add.assoc)
qed

lemma toFixed_2_eq:
  "toFixed 2 q =
     showNat (nat \<lfloor>q * 100 + 1 / 2\<rfloor> div 100) @ ''.''
       @ padDigits 2 (nat \<lfloor>q * 100 + 1 / 2\<rfloor> mod 100)"
  by (simp add: toFixed_def Let_def)

lemma toFixed_2_shape:
  "\<exists>ip a b. a < 10 \<and> b < 10
     \<and> toFixed 2 q = showNat ip @ ''.'' @ [digitChar a, digitChar b]
     \<and> ip * 100 + a * 10 + b = nat \<lfloor>q * 100 + 1 / 2\<rfloor>"
proof -
  define n where "n = nat \<lfloor>q * 100 + 1 / 2\<rfloor>"
  have "toFixed 2 q = showNat (n div 100) @ ''.''
      @ [digitChar (n mod 100 div 10 mod 10), digitChar (n mod 100 mod 10)]"
    unfolding toFixed_2_eq padDigits_2 n_def ..
  moreover have "n mod 100 div 10 mod 10 < 10" "n mod 100 mod 10 < 10" by simp_all
  moreover note three_digits [of n]
  ultimately show ?thesis unfolding n_def by blast
qed

lemma countSince_le: "countSince s t \<le> length (users s)"
  by (simp add: countSince_def)



text \<open>
  Claim C5, with the format the code has. When the store answers and the users number
  less than \<open>2^53\<close>, the report exists (no division fails), \<open>usersThisWeek \<le> totalUsers\<close>,
  and \<open>weeklyGrowthRate\<close> is \<open>New\<close> when \<open>totalUsers - usersThisWeek\<close> is zero. Otherwise it
  is the double \<open>usersThisWeek / (totalUsers - usersThisWeek) * 100\<close>, quotient and product
  each rounded as the machine rounds them, printed with two decimal places and followed
  by a percent sign: the digits of the integer part, a point, two digits, \<open>%\<close>.
\<close>

theorem C5_weekly_growth_rate_two_decimals:
  assumes "\<forall>op. \<not> flt op" and "length (users (db w)) < 2 ^ 53"
  shows "\<exists>r. get_comprehensive flt tz today w = Some r
    \<and> usersThisWeek r \<le> totalUsers r
    \<and> (totalUsers r - usersThisWeek r = 0 \<longrightarrow> weeklyGrowthRateField r = ''New'')
    \<and> (totalUsers r - usersThisWeek r \<noteq> 0 \<longrightarrow>
          weeklyGrowthRateField r
            = toFixed 2
                (toDouble
                   (toDouble (of_nat (usersThisWeek r) / of_nat (totalUsers r - usersThisWeek r))
                      * 100))
                @ ''%''
        \<and> (\<exists>ip a b. a < 10 \<and> b < 10
              \<and> weeklyGrowthRateField r = showNat ip @ ''.'' @ [digitChar a, digitChar b] @ ''%''
              \<and> ip * 100 + a * 10 + b
                  = nat \<lfloor>toDouble
                           (toDouble (of_nat (usersThisWeek r)
                                        / of_nat (totalUsers r - usersThisWeek r)) * 100)
                          * 100 + 1 / (2 :: rat)\<rfloor>))"
proof -
  let ?t = "length (users (db w))" and ?k = "countSince (db w) (today - 7 * DAY)"
  let ?q = "toDouble (toDouble (of_nat ?k / of_nat (?t - ?k)) * (100 :: rat))"
  have le: "?k \<le> ?t" by (rule countSince_le)
  have z: "?t - ?k = 0 \<Longrightarrow> weeklyGrowthRate (db w) today = infinitySign"
    by (simp add: weeklyGrowthRate_def Let_def)
  have nz: "?t - ?k \<noteq> 0 \<Longrightarrow> weeklyGrowthRate (db w) today = toFixed 2 ?q"
    using le by (simp add: weeklyGrowthRate_def Let_def of_nat_diff)
  from toFixed_2_shape [of ?q] obtain ip a b where
    sh: "a < 10" "b < 10" "toFixed 2 ?q = showNat ip @ ''.'' @ [digitChar a, digitChar b]"
        "ip * 100 + a * 10 + b = nat \<lfloor>?q * 100 + 1 / 2\<rfloor>"
    by blast
  show ?thesis
    using assms(1) le z nz sh toFixed_2_not_infinity [of ?q]
    by (auto simp: get_comprehensive_def Let_def)
qed

lemma rate_23_of_160: "toFixed 2 (toDouble (toDouble (23 / 160) * 100)) = ''14.37''"
  by code_simp

lemma ratioStore_counts:
  "length (users ratioStore) = 183" "countSince ratioStore (100 * DAY + 5 - 7 * DAY) = 23"
  by code_simp+

theorem C5_witness:
  "\<exists>r. get_comprehensive noFault (\<lambda>t. 0) (100 * DAY + 5) ratioWorld = Some r
      \<and> totalUsers r = 183 \<and> usersThisWeek r = 23 \<and> weeklyGrowthRateField r = ''14.37%''"
proof -
  have 1: "\<forall>op. \<not> noFault op"
    by (simp add: noFault_def)
  have 2: "length (users (db ratioWorld)) < 2 ^ 53"
    using ratioStore_counts(1) by (simp add: ratioWorld_def)
  from C5_weekly_growth_rate_two_decimals [OF 1 2, of "\<lambda>t. 0" "100 * DAY + 5"]
  obtain r where r: "get_comprehensive noFault (\<lambda>t. 0) (100 * DAY + 5) ratioWorld = Some r"
    and n: "totalUsers r - usersThisWeek r \<noteq> 0 \<longrightarrow>
          weeklyGrowthRateField r
            = toFixed 2
                (toDouble
                   (toDouble (of_nat (usersThisWeek r) / of_nat (totalUsers r - usersThisWeek r))
                      * 100))
                @ ''%''
        \<and> (\<exists>ip a b. a < 10 \<and> b < 10
              \<and> weeklyGrowthRateField r = showNat ip @ ''.'' @ [digitChar a, digitChar b] @ ''%''
              \<and> ip * 100 + a * 10 + b
                  = nat \<lfloor>toDouble
                           (toDouble (of_nat (usersThisWeek r)
                                        / of_nat (totalUsers r - usersThisWeek r)) * 100)
                          * 100 + 1 / (2 :: rat)\<rfloor>)"
    by (elim exE conjE)
  have t: "totalUsers r = 183" and k: "usersThisWeek r = 23"
    using get_comprehensive_totals(1,2) [OF r] ratioStore_counts
    by (simp_all add: ratioWorld_def)
  from n t k have "weeklyGrowthRateField r = toFixed 2 (toDouble (toDouble (23 / 160) * 100)) @ ''%''"
    by simp
  with r t k show ?thesis
    by (simp add: rate_23_of_160)
qed

lemma rate_1_of_2: "toFixed 2 (toDouble (toDouble (1 / 2) * 100)) = ''50.00''"
  by code_simp

lemma growthStore_rate: "weeklyGrowthRate growthStore (100 * DAY + 5) = ''50.00''"
  using rate_1_of_2
  by (simp add: weeklyGrowthRate_def countSince_def growthStore_def DAY_def Let_def)

text \<open>
  The claim as written has one decimal place. With two users from before the week and one
  from within it the rate is 50, and the report shows it with two decimals and a percent
  sign.
\<close>

theorem C5_growth_rate_has_two_decimals:
  "map_option weeklyGrowthRateField (get_comprehensive noFault (\<lambda>t. 0) (100 * DAY + 5) growthWorld)
     = Some ''50.00%''"
  using growthStore_rate
  by (simp add: get_comprehensive_def Let_def noFault_def growthWorld_def infinitySign_def)

section \<open>The daily histogram\<close>

lemma DAY_pos: "0 < DAY"
  by (simp add: DAY_def)

lemma isoDate_minus_days: "isoDate (today - int i * DAY) = isoDate today - int i"
proof -
  have "DAY \<noteq> 0" using DAY_pos by simp
  then have "(today + (- int i) * DAY) div DAY = - int i + today div DAY"
    by (rule div_mult_self1)
  then show ?thesis by (simp add: isoDate_def)
qed

lemma fold_initDay:
  "distinct is \<Longrightarrow> \<forall>i \<in> set is. isoDate today - int i \<notin> fst ` set acc \<Longrightarrow>
   fold (initDay today) is acc = acc @ map (\<lambda>i. (isoDate today - int i, 0)) is"
proof (induction "is" arbitrary: acc)
  case Nil
  then show ?case by simp
next
  case (Cons i "is")
  have step: "initDay today i acc = acc @ [(isoDate today - int i, 0)]"
    using Cons.prems(2) by (simp add: initDay_def objSet_def hasOwnProperty_def isoDate_minus_days)
  have "\<forall>j \<in> set is. isoDate today - int j \<notin> fst ` set (acc @ [(isoDate today - int i, 0)])"
    using Cons.prems by auto
  with Cons.IH [of "acc @ [(isoDate today - int i, 0)]"] Cons.prems(1) step
  show ?case by simp
qed

lemma days_upto: "map (\<lambda>i. D - int i) (rev [0 ..< n]) = [D - int n + 1 .. D]"
proof (induction n)
  case 0
  then show ?case by simp
next
  case (Suc n)
  have "[D - int (Suc n) + 1 .. D] = (D - int n) # [D - int n + 1 .. D]"
    by (subst upto_rec1) simp_all
  with Suc show ?case by simp
qed

lemma dailyDataInit_eq:
  "dailyDataInit today = map (\<lambda>d. (d, 0)) [isoDate today - 29 .. isoDate today]"
proof -
  have "dailyDataInit today = map (\<lambda>i. (isoDate today - int i, 0)) (rev [0 ..< 30])"
    unfolding dailyDataInit_def by (subst fold_initDay) simp_all
  also have "\<dots> = map (\<lambda>d. (d, 0)) (map (\<lambda>i. isoDate today - int i) (rev [0 ..< 30]))"
    by (simp add: o_def)
  also have "\<dots> = map (\<lambda>d. (d, 0)) [isoDate today - 29 .. isoDate today]"
    by (simp only: days_upto) simp
  finally show ?thesis .
qed


lemma countDay_eq:
  "countDay u d =
     map (\<lambda>e. (fst e, snd e + (if isoDate (u_createdAt u) = fst e then 1 else 0))) d"
proof (cases "hasOwnProperty d (isoDate (u_createdAt u))")
  case True
  then show ?thesis
    by (auto simp: countDay_def Let_def objIncr_def)
next
  case False
  then have "\<forall>e \<in> set d. fst e \<noteq> isoDate (u_createdAt u)"
    by (force simp: hasOwnProperty_def)
  then have "map (\<lambda>e. (fst e, snd e + (if isoDate (u_createdAt u) = fst e then 1 else 0))) d = d"
    by (intro map_idI) auto
  with False show ?thesis by (simp add: countDay_def Let_def)
qed

lemma fold_countDay:
  "fold countDay us d =
     map (\<lambda>e. (fst e, snd e + length (filter (\<lambda>u. isoDate (u_createdAt u) = fst e) us))) d"
proof (induction us arbitrary: d)
  case Nil
  then show ?case by simp
next
  case (Cons u us)
  have "fold countDay (u # us) d = fold countDay us (countDay u d)"
    by simp
  also have "\<dots> = map (\<lambda>e. (fst e, snd e + length (filter (\<lambda>u. isoDate (u_createdAt u) = fst e) us)))
      (countDay u d)"
    by (rule Cons.IH)
  also have "\<dots> = map (\<lambda>e. (fst e, snd e + length (filter (\<lambda>u. isoDate (u_createdAt u) = fst e) us)))
      (map (\<lambda>e. (fst e, snd e + (if isoDate (u_createdAt u) = fst e then 1 else 0))) d)"
    by (simp only: countDay_eq)
  also have "\<dots> = map (\<lambda>e. (fst e,
      snd e + length (filter (\<lambda>u. isoDate (u_createdAt u) = fst e) (u # us)))) d"
    by (auto simp: o_def)
  finally show ?case .
qed

lemma day_window:
  assumes "isoDate today - 29 \<le> isoDate c"
  shows "today - 30 * DAY \<le> c"
proof -
  have m: "0 < DAY" by (rule DAY_pos)
  have 1: "c div DAY * DAY \<le> c"
    using m by (metis div_mult_mod_eq le_add_same_cancel1 pos_mod_sign)
  have 2: "today < (today div DAY + 1) * DAY"
    using m by (metis add.commute distrib_right div_mult_mod_eq mult_1 add_less_cancel_left pos_mod_bound)
  have 3: "(today div DAY - 29) * DAY \<le> c div DAY * DAY"
    using assms m by (simp add: isoDate_def)
  have "(today div DAY - 29) * DAY = (today div DAY + 1) * DAY - 30 * DAY"
    by (simp add: algebra_simps)
  with 1 2 3 show ?thesis by linarith
qed

lemma count_usersLastMonth:
  assumes "isoDate today - 29 \<le> k"
  shows "length (filter (\<lambda>u. isoDate (u_createdAt u) = k) (usersLastMonth s today))
       = length (filter (\<lambda>u. isoDate (u_createdAt u) = k) (users s))"
proof -
  have "filter (\<lambda>u. isoDate (u_createdAt u) = k)
          (filter (\<lambda>u. today - 30 * DAY \<le> u_createdAt u) (users s))
      = filter (\<lambda>u. isoDate (u_createdAt u) = k) (users s)"
    unfolding filter_filter using assms by (intro filter_cong) (auto dest: day_window)
  then show ?thesis
    by (simp add: usersLastMonth_def filter_sort)
qed

lemma dailyData_eq:
  "dailyData s today =
     map (\<lambda>d. (d, length (filter (\<lambda>u. isoDate (u_createdAt u) = d) (users s))))
       [isoDate today - 29 .. isoDate today]"
  by (simp add: dailyData_def fold_countDay dailyDataInit_eq o_def count_usersLastMonth)

lemma dailySignupsArray_eq:
  "dailySignupsArray s today =
     map (\<lambda>d. (d, length (filter (\<lambda>u. isoDate (u_createdAt u) = d) (users s))))
       [isoDate today - 29 .. isoDate today]"
proof -
  have "sorted (map (\<lambda>d. d * DAY) [isoDate today - 29 .. isoDate today])"
    using DAY_pos by (simp add: sorted_map sorted_wrt_iff_nth_less)
  then have "sorted (map (\<lambda>e. dateOfKey (fst e)) (dailyData s today))"
    by (simp add: dailyData_eq o_def dateOfKey_def)
  then show ?thesis
    unfolding dailySignupsArray_def by (simp add: sort_key_id_if_sorted dailyData_eq)
qed


lemma map_of_counts:
  "k \<in> set ks \<Longrightarrow> map_of (map (\<lambda>d. (d, f d)) ks) k = Some (f k)"
  by (induction ks) auto

lemma three_signups_same_day:
  assumes "users (db w0) = []"
    and a: "post_waitlist isEmail toNumber fltA svcA sendA nowA bodyA w0 = (Status201 ua sa pa, wA)"
    and b: "post_waitlist isEmail toNumber fltB svcB sendB nowB bodyB wA = (Status201 ub sb pb, wB)"
    and c: "post_waitlist isEmail toNumber fltC svcC sendC nowC bodyC wB = (Status201 uc sc pc, w)"
    and "isoDate nowA = D" "isoDate nowB = D" "isoDate nowC = D"
  shows "length (users (db w)) = 3"
    and "length (filter (\<lambda>u. isoDate (u_createdAt u) = D) (users (db w))) = 3"
proof -
  from post_waitlist_201 [OF a] assms(1) obtain x where
    x: "users (db wA) = [x]" "u_createdAt x = nowA" by auto
  from post_waitlist_201 [OF b] x obtain y where
    y: "users (db wB) = [x, y]" "u_createdAt y = nowB" by auto
  from post_waitlist_201 [OF c] y obtain z where
    z: "users (db w) = [x, y, z]" "u_createdAt z = nowC" by auto
  from z show "length (users (db w)) = 3" by simp
  from x y z assms(5-7)
  show "length (filter (\<lambda>u. isoDate (u_createdAt u) = D) (users (db w))) = 3"
    by simp
qed

text \<open>
  Claim C6. The daily histogram of the report is the list of the 30 UTC days from
  \<open>today - 29\<close> to \<open>today\<close>, in this order, each with the number of users whose signup
  falls on that UTC day: 30 buckets, chronological, and 0 for a day without signups.
  After three signups on an empty store, all answered with 201 and all on the UTC day of
  the report, \<open>totalUsers\<close> is 3 and the bucket of today holds 3.
\<close>

theorem C6_daily_histogram_last_30_days:
  assumes "get_comprehensive flt tz today w = Some r"
  shows "dailySignups r =
       map (\<lambda>d. (d, length (filter (\<lambda>u. isoDate (u_createdAt u) = d) (users (db w)))))
         [isoDate today - 29 .. isoDate today]
    \<and> length (dailySignups r) = 30
    \<and> map fst (dailySignups r) = [isoDate today - 29 .. isoDate today]
    \<and> (\<forall>d c. (d, c) \<in> set (dailySignups r)
           \<and> (\<forall>u \<in> set (users (db w)). isoDate (u_createdAt u) \<noteq> d) \<longrightarrow> c = 0)
    \<and> (users (db w0) = []
        \<and> post_waitlist isEmail toNumber fltA svcA sendA nowA bodyA w0 = (Status201 ua sa pa, wA)
        \<and> post_waitlist isEmail toNumber fltB svcB sendB nowB bodyB wA = (Status201 ub sb pb, wB)
        \<and> post_waitlist isEmail toNumber fltC svcC sendC nowC bodyC wB = (Status201 uc sc pc, w)
        \<and> isoDate nowA = isoDate today \<and> isoDate nowB = isoDate today
        \<and> isoDate nowC = isoDate today
       \<longrightarrow> totalUsers r = 3 \<and> map_of (dailySignups r) (isoDate today) = Some 3)"
proof -
  let ?count = "\<lambda>d. length (filter (\<lambda>u. isoDate (u_createdAt u) = d) (users (db w)))"
  let ?days = "[isoDate today - 29 .. isoDate today]"
  have d: "dailySignups r = map (\<lambda>d. (d, ?count d)) ?days"
    using get_comprehensive_totals(3) [OF assms] by (simp add: dailySignupsArray_eq)
  have t: "totalUsers r = length (users (db w))"
    by (rule get_comprehensive_totals(1) [OF assms])
  have 1: "length (dailySignups r) = 30"
    unfolding d by simp
  have 2: "map fst (dailySignups r) = ?days"
    unfolding d by (simp add: o_def)
  have 3: "\<forall>d c. (d, c) \<in> set (dailySignups r)
           \<and> (\<forall>u \<in> set (users (db w)). isoDate (u_createdAt u) \<noteq> d) \<longrightarrow> c = 0"
    unfolding d by (auto simp: filter_empty_conv)
  have m: "map_of (dailySignups r) (isoDate today) = Some (?count (isoDate today))"
    unfolding d by (rule map_of_counts) simp
  have 4: "users (db w0) = []
        \<and> post_waitlist isEmail toNumber fltA svcA sendA nowA bodyA w0 = (Status201 ua sa pa, wA)
        \<and> post_waitlist isEmail toNumber fltB svcB sendB nowB bodyB wA = (Status201 ub sb pb, wB)
        \<and> post_waitlist isEmail toNumber fltC svcC sendC nowC bodyC wB = (Status201 uc sc pc, w)
        \<and> isoDate nowA = isoDate today \<and> isoDate nowB = isoDate today
        \<and> isoDate nowC = isoDate today
       \<longrightarrow> totalUsers r = 3 \<and> map_of (dailySignups r) (isoDate today) = Some 3"
  proof
    assume h: "users (db w0) = []
        \<and> post_waitlist isEmail toNumber fltA svcA sendA nowA bodyA w0 = (Status201 ua sa pa, wA)
        \<and> post_waitlist isEmail toNumber fltB svcB sendB nowB bodyB wA = (Status201 ub sb pb, wB)
        \<and> post_waitlist isEmail toNumber fltC svcC sendC nowC bodyC wB = (Status201 uc sc pc, w)
        \<and> isoDate nowA = isoDate today \<and> isoDate nowB = isoDate today
        \<and> isoDate nowC = isoDate today"
    then have h1: "users (db w0) = []"
      and h2: "post_waitlist isEmail toNumber fltA svcA sendA nowA bodyA w0 = (Status201 ua sa pa, wA)"
      and h3: "post_waitlist isEmail toNumber fltB svcB sendB nowB bodyB wA = (Status201 ub sb pb, wB)"
      and h4: "post_waitlist isEmail toNumber fltC svcC sendC nowC bodyC wB = (Status201 uc sc pc, w)"
      and h5: "isoDate nowA = isoDate today" and h6: "isoDate nowB = isoDate today"
      and h7: "isoDate nowC = isoDate today"
      by simp_all
    from h1 h2 h3 h4 h5 h6 h7 have "length (users (db w)) = 3"
      by (rule three_signups_same_day(1))
    moreover from h1 h2 h3 h4 h5 h6 h7 have "?count (isoDate today) = 3"
      by (rule three_signups_same_day(2))
    ultimately have "length (users (db w)) = 3" and "?count (isoDate today) = 3" .
    with t m show "totalUsers r = 3 \<and> map_of (dailySignups r) (isoDate today) = Some 3"
      by simp
  qed
  from d 1 2 3 4 show ?thesis by (intro conjI)
qed


lemma oneSignup_fst: "fst (signupAs ''a@x.com'' 1000 emptyWorld) = Status201 1 True 1"
  by code_simp

lemma twoSignups_fst: "fst (signupAs ''b@x.com'' 2000 oneSignup) = Status201 2 True 2"
  by code_simp

lemma threeSignups_fst: "fst (signupAs ''c@x.com'' 3000 twoSignups) = Status201 3 True 3"
  by code_simp

theorem C6_witness:
  "totalUsers (the (get_comprehensive noFault (\<lambda>t. 0) 4000 threeSignups)) = 3
   \<and> map_of (dailySignups (the (get_comprehensive noFault (\<lambda>t. 0) 4000 threeSignups))) 0 = Some 3
   \<and> length (dailySignups (the (get_comprehensive noFault (\<lambda>t. 0) 4000 threeSignups))) = 30"
proof -
  let ?r = "the (get_comprehensive noFault (\<lambda>t. 0) 4000 threeSignups)"
  have g: "get_comprehensive noFault (\<lambda>t. 0) 4000 threeSignups = Some ?r"
    by (simp add: get_comprehensive_def noFault_def Let_def)
  have e: "users (db emptyWorld) = []"
    by (simp add: emptyWorld_def emptyStore_def)
  have a: "signupAs ''a@x.com'' 1000 emptyWorld = (Status201 1 True 1, oneSignup)"
    using oneSignup_fst by (simp add: prod_eq_iff oneSignup_def)
  have b: "signupAs ''b@x.com'' 2000 oneSignup = (Status201 2 True 2, twoSignups)"
    using twoSignups_fst by (simp add: prod_eq_iff twoSignups_def)
  have c: "signupAs ''c@x.com'' 3000 twoSignups = (Status201 3 True 3, threeSignups)"
    using threeSignups_fst by (simp add: prod_eq_iff threeSignups_def)
  have d: "isoDate 1000 = isoDate 4000" "isoDate 2000 = isoDate 4000" "isoDate 3000 = isoDate 4000"
    "isoDate 4000 = 0"
    by (simp_all add: isoDate_def DAY_def)
  from C6_daily_histogram_last_30_days [OF g,
         where ?w0.0 = emptyWorld and wA = oneSignup and wB = twoSignups
           and isEmail = emailRegex_test and toNumber = digitsToNumber
           and fltA = noFault and fltB = noFault and fltC = noFault
           and svcA = demoService and svcB = demoService and svcC = demoService
           and sendA = okTransport and sendB = okTransport and sendC = okTransport
           and nowA = 1000 and nowB = 2000 and nowC = 3000
           and ua = 1 and sa = True and pa = 1 and ub = 2 and sb = True and pb = 2
           and uc = 3 and sc = True and pc = 3
           and bodyA = "signupBody ''a@x.com''" and bodyB = "signupBody ''b@x.com''"
           and bodyC = "signupBody ''c@x.com''"]
       e a b c d(1-3)
  have "totalUsers ?r = 3 \<and> map_of (dailySignups ?r) (isoDate 4000) = Some 3
      \<and> length (dailySignups ?r) = 30"
    unfolding signupAs_def by blast
  with d(4) show ?thesis by simp
qed

end
